theory Spec2Isabelle
  imports
    Main
    "HOL-Library.Word"
    "HOL-Library.Char_ord"
    "HOL-Library.List_Lexorder"
    "HOL-Library.Sublist"
    "HOL-Library.Multiset"
begin

section \<open>The location record\<close>

text \<open>
  The repository holds two variants of the gateway. \<^verbatim>\<open>main.go\<close> persists to a document
  collection and its \<^verbatim>\<open>Location\<close> struct carries a \<^verbatim>\<open>CreatedAt\<close> field; the second
  source file persists to a relational table, its \<^verbatim>\<open>Location\<close> struct has the first six
  fields only, and it alone has the track export. Both structs are called \<^verbatim>\<open>Location\<close>
  in the source; here the six-field struct keeps the name and the seven-field struct of
  \<^verbatim>\<open>main.go\<close> is its extension \<open>LocationDoc\<close>. Functions that exist in both files carry
  the suffix \<open>_sqlite\<close> or \<open>_mongo\<close>.

  A \<^verbatim>\<open>float64\<close> is its 64-bit pattern, a Go \<^verbatim>\<open>string\<close> is its byte sequence, and a
  \<^verbatim>\<open>time.Time\<close> is a count of nanoseconds since the Unix epoch.
\<close>

type_synonym float64 = "64 word"
type_synonym time = int

record Location =
  Deployment :: string
  Platform :: string
  Latitude :: float64
  Longitude :: float64
  Timestamp :: string
  Source :: string

record LocationDoc = Location +
  CreatedAt :: time

definition zero_time :: time where
  "zero_time = - 62135596800000000000"

definition zero_Location :: Location where
  "zero_Location =
     \<lparr>Deployment = [], Platform = [], Latitude = 0, Longitude = 0, Timestamp = [], Source = []\<rparr>"

definition zero_LocationDoc :: LocationDoc where
  "zero_LocationDoc =
     \<lparr>Deployment = [], Platform = [], Latitude = 0, Longitude = 0, Timestamp = [], Source = [],
      CreatedAt = zero_time\<rparr>"

section \<open>Binding a JSON body to the struct\<close>

text \<open>
  \<^verbatim>\<open>c.ShouldBindJSON(&loc)\<close> decodes the first JSON value of the body into the struct with
  \<^verbatim>\<open>encoding/json\<close> and then runs the \<^verbatim>\<open>binding\<close> tag validator. Neither struct has a
  \<^verbatim>\<open>binding\<close> tag, so the validator accepts every decoded struct and only the decoder
  can fail. The body is given as the JSON value it parses to (\<open>None\<close> when the body is
  empty or is not JSON). A number is given by the \<^verbatim>\<open>float64\<close> it denotes; \<open>JBig\<close> is a
  numeric literal outside the \<^verbatim>\<open>float64\<close> range.
\<close>

datatype json =
    JNull
  | JBool bool
  | JNum float64
  | JBig
  | JStr string
  | JArr "json list"
  | JObj "(string \<times> json) list"

datatype bind_error = InvalidJSON | TypeMismatch

datatype error = BindError bind_error | StoreError string

text \<open>
  The decoder matches an object key to a struct field by its \<^verbatim>\<open>json\<close> tag, first exactly
  and then under Unicode simple case folding. For the ASCII tags of this struct a key
  folds to a tag when it differs only in letter case, or writes \<^verbatim>\<open>s\<close> as U+017F
  (bytes C5 BF) or \<^verbatim>\<open>k\<close> as U+212A (bytes E2 84 AA).
\<close>

definition fold_char :: "char \<Rightarrow> char" where
  "fold_char c =
     (case map_of (zip ''abcdefghijklmnopqrstuvwxyz'' ''ABCDEFGHIJKLMNOPQRSTUVWXYZ'') c of
        Some u \<Rightarrow> u
      | None \<Rightarrow> c)"

fun foldName :: "string \<Rightarrow> string" where
  "foldName [] = []"
| "foldName [c] = [fold_char c]"
| "foldName [c, d] =
     (if c = CHR 0xC5 \<and> d = CHR 0xBF then ''S'' else fold_char c # foldName [d])"
| "foldName (c # d # e # cs) =
     (if c = CHR 0xC5 \<and> d = CHR 0xBF then CHR ''S'' # foldName (e # cs)
      else if c = CHR 0xE2 \<and> d = CHR 0x84 \<and> e = CHR 0xAA then CHR ''K'' # foldName cs
      else fold_char c # foldName (d # e # cs))"

definition key_is :: "string \<Rightarrow> string \<Rightarrow> bool" where
  "key_is tag k \<longleftrightarrow> foldName k = foldName tag"

text \<open>
  Storing a JSON value into a field: \<^verbatim>\<open>null\<close> leaves the field as it is, a value of the
  field's JSON type sets it, anything else is an error. A \<^verbatim>\<open>time.Time\<close> field takes an
  RFC 3339 string; the parser is the parameter \<open>pt\<close>.
\<close>

fun put_string :: "json \<Rightarrow> string \<Rightarrow> bind_error + string" where
  "put_string JNull cur = Inr cur"
| "put_string (JStr s) cur = Inr s"
| "put_string v cur = Inl TypeMismatch"

fun put_float :: "json \<Rightarrow> float64 \<Rightarrow> bind_error + float64" where
  "put_float JNull cur = Inr cur"
| "put_float (JNum x) cur = Inr x"
| "put_float v cur = Inl TypeMismatch"

fun put_time :: "(string \<Rightarrow> time option) \<Rightarrow> json \<Rightarrow> time \<Rightarrow> bind_error + time" where
  "put_time pt JNull cur = Inr cur"
| "put_time pt (JStr s) cur = (case pt s of Some t \<Rightarrow> Inr t | None \<Rightarrow> Inl TypeMismatch)"
| "put_time pt v cur = Inl TypeMismatch"

definition set_field ::
  "string \<Rightarrow> json \<Rightarrow> 'a Location_scheme \<Rightarrow> bind_error + 'a Location_scheme" where
  "set_field k v loc =
     (if key_is ''deployment'' k then
        map_sum id (\<lambda>s. loc\<lparr>Deployment := s\<rparr>) (put_string v (Deployment loc))
      else if key_is ''platform'' k then
        map_sum id (\<lambda>s. loc\<lparr>Platform := s\<rparr>) (put_string v (Platform loc))
      else if key_is ''latitude'' k then
        map_sum id (\<lambda>x. loc\<lparr>Latitude := x\<rparr>) (put_float v (Latitude loc))
      else if key_is ''longitude'' k then
        map_sum id (\<lambda>x. loc\<lparr>Longitude := x\<rparr>) (put_float v (Longitude loc))
      else if key_is ''timestamp'' k then
        map_sum id (\<lambda>s. loc\<lparr>Timestamp := s\<rparr>) (put_string v (Timestamp loc))
      else if key_is ''source'' k then
        map_sum id (\<lambda>s. loc\<lparr>Source := s\<rparr>) (put_string v (Source loc))
      else Inr loc)"

definition set_field_doc ::
  "(string \<Rightarrow> time option) \<Rightarrow> string \<Rightarrow> json \<Rightarrow> LocationDoc \<Rightarrow> bind_error + LocationDoc" where
  "set_field_doc pt k v loc =
     (if key_is ''created_at'' k then
        map_sum id (\<lambda>t. loc\<lparr>CreatedAt := t\<rparr>) (put_time pt v (CreatedAt loc))
      else set_field k v loc)"

fun decode_object ::
  "(string \<Rightarrow> json \<Rightarrow> 'r \<Rightarrow> bind_error + 'r) \<Rightarrow> (string \<times> json) list \<Rightarrow> 'r \<Rightarrow> bind_error + 'r" where
  "decode_object setf [] loc = Inr loc"
| "decode_object setf ((k, v) # kvs) loc =
     (case setf k v loc of
        Inl e \<Rightarrow> Inl e
      | Inr loc' \<Rightarrow> decode_object setf kvs loc')"

fun unmarshal ::
  "(string \<Rightarrow> json \<Rightarrow> 'r \<Rightarrow> bind_error + 'r) \<Rightarrow> json option \<Rightarrow> 'r \<Rightarrow> bind_error + 'r" where
  "unmarshal setf None z = Inl InvalidJSON"
| "unmarshal setf (Some JNull) z = Inr z"
| "unmarshal setf (Some (JObj kvs)) z = decode_object setf kvs z"
| "unmarshal setf (Some v) z = Inl TypeMismatch"

definition ShouldBindJSON_sqlite :: "json option \<Rightarrow> bind_error + Location" where
  "ShouldBindJSON_sqlite body = unmarshal set_field body zero_Location"

definition ShouldBindJSON_mongo ::
  "(string \<Rightarrow> time option) \<Rightarrow> json option \<Rightarrow> bind_error + LocationDoc" where
  "ShouldBindJSON_mongo pt body = unmarshal (set_field_doc pt) body zero_LocationDoc"

section \<open>Responses\<close>

text \<open>
  A response is its status, the headers the handler sets, and the value the handler
  hands to \<^verbatim>\<open>c.JSON\<close> or \<^verbatim>\<open>c.String\<close>. The error message of a response is the error
  value; the headers that the middleware of the relational variant adds to every response
  are left out.

  A Go slice is either nil or holds a list of elements, and \<^verbatim>\<open>c.JSON\<close> writes the two
  differently: \<open>NilSlice\<close> is written as \<^verbatim>\<open>null\<close> and \<open>Slice xs\<close> as the JSON array of
  \<open>xs\<close>, so \<open>Slice []\<close> is written as \<^verbatim>\<open>[]\<close>. A slice variable declared without a value
  is nil. It is still nil after a loop that appended nothing to it; \<open>appended xs\<close> is the
  slice such a variable holds once the elements \<open>xs\<close> were put into it. The slice that
  \<^verbatim>\<open>cursor.All\<close> fills is taken to stay nil as well when the cursor holds no document;
  the statements about the document-store variant's list read it through \<open>elems\<close> or
  at a store with matching documents, so none depends on that. \<open>marshal_strings\<close> is the
  JSON value that \<^verbatim>\<open>c.JSON\<close> writes for a slice of strings.
\<close>

datatype 'a slice = NilSlice | Slice "'a list"

fun elems :: "'a slice \<Rightarrow> 'a list" where
  "elems NilSlice = []"
| "elems (Slice xs) = xs"

definition appended :: "'a list \<Rightarrow> 'a slice" where
  "appended xs = (if xs = [] then NilSlice else Slice xs)"

fun marshal_strings :: "string slice \<Rightarrow> json" where
  "marshal_strings NilSlice = JNull"
| "marshal_strings (Slice xs) = JArr (map JStr xs)"

datatype payload =
    ErrorMsg error
  | StatusSuccess
  | Locations "Location slice"
  | LocationDocs "LocationDoc slice"
  | Strings "string slice"
  | Document string
  | NoRoute

record response =
  status :: nat
  headers :: "(string \<times> string) list"
  payload :: payload

definition JSON :: "nat \<Rightarrow> payload \<Rightarrow> response" where
  "JSON code obj =
     \<lparr>status = code, headers = [(''Content-Type'', ''application/json; charset=utf-8'')],
      payload = obj\<rparr>"

definition StatusOK :: nat where "StatusOK = 200"
definition StatusBadRequest :: nat where "StatusBadRequest = 400"
definition StatusNotFound :: nat where "StatusNotFound = 404"
definition StatusInternalServerError :: nat where "StatusInternalServerError = 500"

section \<open>The relational variant\<close>

text \<open>
  The table is the list of its rows in rowid order, each row as a \<^verbatim>\<open>SELECT\<close> reads it
  back; the handlers are its only writers. A \<^verbatim>\<open>SELECT\<close> without \<^verbatim>\<open>ORDER BY\<close> delivers the
  matching rows in table order, \<^verbatim>\<open>ORDER BY timestamp\<close> sorts them by byte-wise string
  comparison and keeps rows of equal timestamp in table order, and \<^verbatim>\<open>SELECT DISTINCT\<close>
  delivers each value once, at its first occurrence. What the driver can report is an
  input: \<open>sqlite_faults\<close> says for each kind of call whether it returns an error, and row
  iteration delivers every row.

  The columns \<^verbatim>\<open>latitude\<close> and \<^verbatim>\<open>longitude\<close> are \<^verbatim>\<open>REAL NOT NULL\<close>. The engine keeps a
  number without fractional part as an integer and turns it back into a float when it
  is read: every \<^verbatim>\<open>float64\<close> comes back as it went in, except negative zero, which comes
  back as positive zero. A NaN is bound as \<^verbatim>\<open>NULL\<close>, which the \<^verbatim>\<open>NOT NULL\<close> constraint
  refuses (a JSON number never denotes a NaN, so no request reaches that branch). Text is
  kept byte for byte.
\<close>

record sqlite_faults =
  prepare_err :: "string option"
  exec_err :: "string option"
  query_err :: "string option"
  scan_err :: "string option"

fun distinct_values :: "'a list \<Rightarrow> 'a list" where
  "distinct_values [] = []"
| "distinct_values (x # xs) = x # filter (\<lambda>y. y \<noteq> x) (distinct_values xs)"

definition db_Query ::
  "sqlite_faults \<Rightarrow> (Location \<Rightarrow> bool) \<Rightarrow> bool \<Rightarrow> Location list \<Rightarrow> error + Location list" where
  "db_Query flt wh order_by_timestamp db =
     (case query_err flt of
        Some e \<Rightarrow> Inl (StoreError e)
      | None \<Rightarrow>
          Inr (if order_by_timestamp then sort_key Timestamp (filter wh db) else filter wh db))"

definition neg_zero :: float64 where
  "neg_zero = 0x8000000000000000"

definition is_NaN :: "float64 \<Rightarrow> bool" where
  "is_NaN x \<longleftrightarrow> (unat x div 2 ^ 52) mod 2048 = 2047 \<and> unat x mod 2 ^ 52 \<noteq> 0"

definition sqlite_real :: "float64 \<Rightarrow> float64" where
  "sqlite_real x = (if x = neg_zero then 0 else x)"

definition stored_row :: "Location \<Rightarrow> Location" where
  "stored_row r = r\<lparr>Latitude := sqlite_real (Latitude r), Longitude := sqlite_real (Longitude r)\<rparr>"

definition stmt_Exec :: "sqlite_faults \<Rightarrow> Location \<Rightarrow> Location list \<Rightarrow> error + Location list" where
  "stmt_Exec flt loc db =
     (case exec_err flt of
        Some e \<Rightarrow> Inl (StoreError e)
      | None \<Rightarrow>
          if is_NaN (Latitude loc) then
            Inl (StoreError ''NOT NULL constraint failed: locations.latitude'')
          else if is_NaN (Longitude loc) then
            Inl (StoreError ''NOT NULL constraint failed: locations.longitude'')
          else Inr (db @ [stored_row loc]))"

definition scan_rows :: "sqlite_faults \<Rightarrow> 'a list \<Rightarrow> error + 'a list" where
  "scan_rows flt rows =
     (case scan_err flt of
        Some e \<Rightarrow> (if rows = [] then Inr [] else Inl (StoreError e))
      | None \<Rightarrow> Inr rows)"

definition handlePostLocation_sqlite ::
  "sqlite_faults \<Rightarrow> json option \<Rightarrow> Location list \<Rightarrow> response \<times> Location list" where
  "handlePostLocation_sqlite flt body db =
     (case ShouldBindJSON_sqlite body of
        Inl e \<Rightarrow> (JSON StatusBadRequest (ErrorMsg (BindError e)), db)
      | Inr loc \<Rightarrow>
          (case prepare_err flt of
             Some e \<Rightarrow> (JSON StatusInternalServerError (ErrorMsg (StoreError e)), db)
           | None \<Rightarrow>
               (case stmt_Exec flt loc db of
                  Inl e \<Rightarrow> (JSON StatusInternalServerError (ErrorMsg e), db)
                | Inr db' \<Rightarrow> (JSON StatusOK StatusSuccess, db'))))"

definition where_clause :: "string \<Rightarrow> string \<Rightarrow> Location \<Rightarrow> bool" where
  "where_clause deployment platform =
     (if deployment \<noteq> [] then
        (if platform \<noteq> [] then (\<lambda>r. Deployment r = deployment \<and> Platform r = platform)
         else (\<lambda>r. Deployment r = deployment))
      else (\<lambda>r. True))"

definition handleGetLocations_sqlite ::
  "sqlite_faults \<Rightarrow> string \<Rightarrow> string \<Rightarrow> Location list \<Rightarrow> response" where
  "handleGetLocations_sqlite flt deployment platform db =
     (case db_Query flt (where_clause deployment platform) False db of
        Inl e \<Rightarrow> JSON StatusInternalServerError (ErrorMsg e)
      | Inr rows \<Rightarrow>
          (case scan_rows flt rows of
             Inl e \<Rightarrow> JSON StatusInternalServerError (ErrorMsg e)
           | Inr locations \<Rightarrow> JSON StatusOK (Locations (appended locations))))"

definition handleGetDeployments_sqlite :: "sqlite_faults \<Rightarrow> Location list \<Rightarrow> response" where
  "handleGetDeployments_sqlite flt db =
     (case db_Query flt (\<lambda>r. True) False db of
        Inl e \<Rightarrow> JSON StatusInternalServerError (ErrorMsg e)
      | Inr rows \<Rightarrow>
          (case scan_rows flt (distinct_values (map Deployment rows)) of
             Inl e \<Rightarrow> JSON StatusInternalServerError (ErrorMsg e)
           | Inr deployments \<Rightarrow> JSON StatusOK (Strings (appended deployments))))"

definition handleGetPlatforms_sqlite ::
  "sqlite_faults \<Rightarrow> string \<Rightarrow> Location list \<Rightarrow> response" where
  "handleGetPlatforms_sqlite flt deployment db =
     (case db_Query flt (\<lambda>r. Deployment r = deployment) False db of
        Inl e \<Rightarrow> JSON StatusInternalServerError (ErrorMsg e)
      | Inr rows \<Rightarrow>
          (case scan_rows flt (distinct_values (map Platform rows)) of
             Inl e \<Rightarrow> JSON StatusInternalServerError (ErrorMsg e)
           | Inr platforms \<Rightarrow> JSON StatusOK (Strings (appended platforms))))"

section \<open>The document-store variant\<close>

text \<open>
  The collection is the list of its documents in insertion order. \<^verbatim>\<open>Find\<close> with the sort
  \<^verbatim>\<open>{timestamp: 1}\<close> delivers the documents matching the filter, sorted by byte-wise
  string comparison with equal timestamps in insertion order; \<^verbatim>\<open>Distinct\<close> delivers each
  value of the field once, in a slice it makes itself, which is never nil. A \<^verbatim>\<open>bson.M\<close>
  filter is the list of its key/value pairs, and a document matches when each named field
  equals the value. A \<^verbatim>\<open>time.Time\<close> is stored as a BSON datetime, which keeps whole
  milliseconds; strings and doubles are kept bit for bit.
\<close>

record mongo_faults =
  insert_err :: "string option"
  find_err :: "string option"
  cursor_err :: "string option"
  distinct_err :: "string option"

definition bson_time :: "time \<Rightarrow> time" where
  "bson_time t = (t div 1000000) * 1000000"

definition bson_field :: "string \<Rightarrow> LocationDoc \<Rightarrow> string option" where
  "bson_field k r =
     (if k = ''deployment'' then Some (Deployment r)
      else if k = ''platform'' then Some (Platform r)
      else if k = ''timestamp'' then Some (Timestamp r)
      else if k = ''source'' then Some (Source r)
      else None)"

definition matches :: "(string \<times> string) list \<Rightarrow> LocationDoc \<Rightarrow> bool" where
  "matches filt r = list_all (\<lambda>(k, v). bson_field k r = Some v) filt"

definition collection_Find ::
  "mongo_faults \<Rightarrow> (string \<times> string) list \<Rightarrow> LocationDoc list \<Rightarrow> error + LocationDoc list" where
  "collection_Find flt filt coll =
     (case find_err flt of
        Some e \<Rightarrow> Inl (StoreError e)
      | None \<Rightarrow> Inr (sort_key Timestamp (filter (matches filt) coll)))"

definition cursor_All :: "mongo_faults \<Rightarrow> 'a list \<Rightarrow> error + 'a list" where
  "cursor_All flt docs =
     (case cursor_err flt of
        Some e \<Rightarrow> Inl (StoreError e)
      | None \<Rightarrow> Inr docs)"

definition collection_Distinct ::
  "mongo_faults \<Rightarrow> (LocationDoc \<Rightarrow> string) \<Rightarrow> (string \<times> string) list \<Rightarrow> LocationDoc list
     \<Rightarrow> error + string list" where
  "collection_Distinct flt field filt coll =
     (case distinct_err flt of
        Some e \<Rightarrow> Inl (StoreError e)
      | None \<Rightarrow> Inr (distinct_values (map field (filter (matches filt) coll))))"

definition handlePostLocation_mongo ::
  "(string \<Rightarrow> time option) \<Rightarrow> time \<Rightarrow> mongo_faults \<Rightarrow> json option \<Rightarrow> LocationDoc list
     \<Rightarrow> response \<times> LocationDoc list" where
  "handlePostLocation_mongo pt now flt body coll =
     (case ShouldBindJSON_mongo pt body of
        Inl e \<Rightarrow> (JSON StatusBadRequest (ErrorMsg (BindError e)), coll)
      | Inr location \<Rightarrow>
          (let location = location\<lparr>CreatedAt := now\<rparr> in
           case insert_err flt of
             Some e \<Rightarrow> (JSON StatusInternalServerError (ErrorMsg (StoreError e)), coll)
           | None \<Rightarrow>
               (JSON StatusOK StatusSuccess,
                coll @ [location\<lparr>CreatedAt := bson_time (CreatedAt location)\<rparr>])))"

definition query_filter :: "string \<Rightarrow> string \<Rightarrow> (string \<times> string) list" where
  "query_filter deployment platform =
     (if deployment \<noteq> [] then [(''deployment'', deployment)] else []) @
     (if platform \<noteq> [] then [(''platform'', platform)] else [])"

definition handleGetLocations_mongo ::
  "mongo_faults \<Rightarrow> string \<Rightarrow> string \<Rightarrow> LocationDoc list \<Rightarrow> response" where
  "handleGetLocations_mongo flt deployment platform coll =
     (case collection_Find flt (query_filter deployment platform) coll of
        Inl e \<Rightarrow> JSON StatusInternalServerError (ErrorMsg e)
      | Inr cursor \<Rightarrow>
          (case cursor_All flt cursor of
             Inl e \<Rightarrow> JSON StatusInternalServerError (ErrorMsg e)
           | Inr locations \<Rightarrow> JSON StatusOK (LocationDocs (appended locations))))"

definition handleGetDeployments_mongo :: "mongo_faults \<Rightarrow> LocationDoc list \<Rightarrow> response" where
  "handleGetDeployments_mongo flt coll =
     (case collection_Distinct flt Deployment [] coll of
        Inl e \<Rightarrow> JSON StatusInternalServerError (ErrorMsg e)
      | Inr deployments \<Rightarrow> JSON StatusOK (Strings (Slice deployments)))"

definition handleGetPlatforms_mongo ::
  "mongo_faults \<Rightarrow> string \<Rightarrow> LocationDoc list \<Rightarrow> response" where
  "handleGetPlatforms_mongo flt deployment coll =
     (case collection_Distinct flt Platform [(''deployment'', deployment)] coll of
        Inl e \<Rightarrow> JSON StatusInternalServerError (ErrorMsg e)
      | Inr platforms \<Rightarrow> JSON StatusOK (Strings (Slice platforms)))"

section \<open>The track export\<close>

text \<open>
  \<^verbatim>\<open>handleDownloadKML\<close> exists in the relational variant only. It reads the rows of one
  deployment ordered by timestamp, groups their points in a Go map keyed by platform,
  and appends text to one string: the document head, then per map entry a placemark
  with a \<^verbatim>\<open>LineString\<close> followed by one placemark per point, then the document tail.
  \<^verbatim>\<open>%s\<close> inserts the bytes of a string as they are; \<^verbatim>\<open>%f\<close> is the parameter \<open>fmt_f\<close>.
  The string is handed to \<^verbatim>\<open>c.String\<close> without format arguments, which writes it as
  it is, so the \<^verbatim>\<open>%s\<close> of the document head stays in the output.
\<close>

record point =
  point_Latitude :: float64
  point_Longitude :: float64
  point_Timestamp :: string

definition kml_header :: string where
  \<open>kml_header =
     ''<?xml version="1.0" encoding="UTF-8"?>\<newline>'' @
     ''<kml xmlns="http://www.opengis.net/kml/2.2">\<newline>'' @
     ''  <Document>\<newline>'' @
     ''    <name>%s Track</name>\<newline>'' @
     ''    <Style id="yellowLineGreenPoly">\<newline>'' @
     ''      <LineStyle>\<newline>'' @
     ''        <color>7f00ffff</color>\<newline>'' @
     ''        <width>4</width>\<newline>'' @
     ''      </LineStyle>\<newline>'' @
     ''      <PolyStyle>\<newline>'' @
     ''        <color>7f00ff00</color>\<newline>'' @
     ''      </PolyStyle>\<newline>'' @
     ''    </Style>''\<close>

definition kml_footer :: string where
  \<open>kml_footer =
     ''\<newline>'' @
     ''  </Document>\<newline>'' @
     ''</kml>''\<close>

definition track_open :: string where
  \<open>track_open =
     ''\<newline>'' @
     ''    <Placemark>\<newline>'' @
     ''      <name>''\<close>

definition track_middle :: string where
  \<open>track_middle =
     '' Track</name>\<newline>'' @
     ''      <styleUrl>#yellowLineGreenPoly</styleUrl>\<newline>'' @
     ''      <LineString>\<newline>'' @
     ''        <extrude>1</extrude>\<newline>'' @
     ''        <tessellate>1</tessellate>\<newline>'' @
     ''        <altitudeMode>relativeToGround</altitudeMode>\<newline>'' @
     ''        <coordinates>''\<close>

definition track_close :: string where
  \<open>track_close =
     ''</coordinates>\<newline>'' @
     ''      </LineString>\<newline>'' @
     ''    </Placemark>''\<close>

definition waypoint_open :: string where
  \<open>waypoint_open =
     ''\<newline>'' @
     ''    <Placemark>\<newline>'' @
     ''      <name>''\<close>

definition waypoint_when :: string where
  \<open>waypoint_when =
     ''</name>\<newline>'' @
     ''      <TimeStamp>\<newline>'' @
     ''        <when>''\<close>

definition waypoint_point :: string where
  \<open>waypoint_point =
     ''</when>\<newline>'' @
     ''      </TimeStamp>\<newline>'' @
     ''      <Point>\<newline>'' @
     ''        <coordinates>''\<close>

definition waypoint_close :: string where
  \<open>waypoint_close =
     '',0</coordinates>\<newline>'' @
     ''      </Point>\<newline>'' @
     ''    </Placemark>''\<close>

text \<open>
  The grouping loop: \<^verbatim>\<open>platformData[platform] = append(platformData[platform], point)\<close>,
  where a missing key reads as the empty slice.
\<close>

definition point_of :: "Location \<Rightarrow> point" where
  "point_of r =
     \<lparr>point_Latitude = Latitude r, point_Longitude = Longitude r, point_Timestamp = Timestamp r\<rparr>"

definition add_point :: "(string \<rightharpoonup> point list) \<Rightarrow> Location \<Rightarrow> (string \<rightharpoonup> point list)" where
  "add_point m r =
     m(Platform r \<mapsto> (case m (Platform r) of None \<Rightarrow> [] | Some ps \<Rightarrow> ps) @ [point_of r])"

definition platformData :: "Location list \<Rightarrow> (string \<rightharpoonup> point list)" where
  "platformData rows = foldl add_point Map.empty rows"

text \<open>
  \<^verbatim>\<open>range\<close> over a Go map visits every entry once, in an order the runtime chooses. The
  order is the input \<open>ord\<close>, a list of the keys.
\<close>

definition is_iteration_order :: "('k \<rightharpoonup> 'v) \<Rightarrow> 'k list \<Rightarrow> bool" where
  "is_iteration_order m ord \<longleftrightarrow> distinct ord \<and> set ord = dom m"

definition range_map :: "('k \<rightharpoonup> 'v) \<Rightarrow> 'k list \<Rightarrow> ('k \<times> 'v) list" where
  "range_map m ord = List.map_filter (\<lambda>k. map_option (Pair k) (m k)) ord"

text \<open>
  The two kinds of element the loop body appends, and their text.
\<close>

datatype placemark = is_track: Track string "point list" | is_waypoint: Waypoint point

definition coordinate :: "(float64 \<Rightarrow> string) \<Rightarrow> point \<Rightarrow> string" where
  "coordinate fmt_f pt = fmt_f (point_Longitude pt) @ '','' @ fmt_f (point_Latitude pt) @ '',0 ''"

fun render_placemark :: "(float64 \<Rightarrow> string) \<Rightarrow> placemark \<Rightarrow> string" where
  "render_placemark fmt_f (Track platform points) =
     track_open @ platform @ track_middle @ concat (map (coordinate fmt_f) points) @ track_close"
| "render_placemark fmt_f (Waypoint pt) =
     waypoint_open @ point_Timestamp pt @ waypoint_when @ point_Timestamp pt @ waypoint_point @
     fmt_f (point_Longitude pt) @ '','' @ fmt_f (point_Latitude pt) @ waypoint_close"

definition platform_placemarks :: "string \<times> point list \<Rightarrow> placemark list" where
  "platform_placemarks = (\<lambda>(platform, points). Track platform points # map Waypoint points)"

definition kml_placemarks :: "string list \<Rightarrow> Location list \<Rightarrow> placemark list" where
  "kml_placemarks ord rows = concat (map platform_placemarks (range_map (platformData rows) ord))"

definition kml_document :: "(float64 \<Rightarrow> string) \<Rightarrow> placemark list \<Rightarrow> string" where
  "kml_document fmt_f pms = kml_header @ concat (map (render_placemark fmt_f) pms) @ kml_footer"

definition kml_headers :: "string \<Rightarrow> (string \<times> string) list" where
  "kml_headers deployment =
     [(''Content-Type'', ''application/vnd.google-earth.kml+xml''),
      (''Content-Disposition'', ''attachment; filename='' @ deployment @ ''_track.kml'')]"

definition handleDownloadKML ::
  "(float64 \<Rightarrow> string) \<Rightarrow> string list \<Rightarrow> sqlite_faults \<Rightarrow> string \<Rightarrow> Location list \<Rightarrow> response" where
  "handleDownloadKML fmt_f ord flt deployment db =
     (case db_Query flt (\<lambda>r. Deployment r = deployment) True db of
        Inl e \<Rightarrow> JSON StatusInternalServerError (ErrorMsg e)
      | Inr rows \<Rightarrow>
          (case scan_rows flt rows of
             Inl e \<Rightarrow> JSON StatusInternalServerError (ErrorMsg e)
           | Inr rows \<Rightarrow>
               \<lparr>status = StatusOK,
                headers = kml_headers deployment,
                payload = Document (kml_document fmt_f (kml_placemarks ord rows))\<rparr>))"

section \<open>Routing\<close>

text \<open>
  The routes of \<^verbatim>\<open>main()\<close>. The relational variant registers all five handlers; \<^verbatim>\<open>main.go\<close>
  registers no track export, so the router answers that request itself with status 404.
  The path parameter \<^verbatim>\<open>:deployment\<close> stands for exactly one path segment: the router
  hands a request to \<^verbatim>\<open>handleGetPlatforms\<close> or \<^verbatim>\<open>handleDownloadKML\<close> only when the rest of
  the path is not empty and has no \<^verbatim>\<open>/\<close>, and answers every other path itself. A request
  of the model is one that the router hands on, so its parameter is a \<open>segment\<close>.
  What a handler takes from its surroundings is an input: the failures the driver
  reports, the number format and the map iteration order for the relational variant; the
  failures, the time parser and the clock reading for the document-store variant.
\<close>

typedef segment = "{s :: string. s \<noteq> [] \<and> CHR ''/'' \<notin> set s}"
  by (rule exI [of _ "''x''"]) simp

datatype request =
    PostLocation "json option"
  | GetLocations string string
  | GetDeployments
  | GetPlatforms segment
  | DownloadKML segment

record sqlite_env =
  env_faults :: sqlite_faults
  env_fmt :: "float64 \<Rightarrow> string"
  env_order :: "string list"

record mongo_env =
  menv_faults :: mongo_faults
  menv_parse_time :: "string \<Rightarrow> time option"
  menv_now :: time

fun serve_sqlite :: "sqlite_env \<Rightarrow> request \<Rightarrow> Location list \<Rightarrow> response \<times> Location list" where
  "serve_sqlite env (PostLocation body) db = handlePostLocation_sqlite (env_faults env) body db"
| "serve_sqlite env (GetLocations deployment platform) db =
     (handleGetLocations_sqlite (env_faults env) deployment platform db, db)"
| "serve_sqlite env GetDeployments db = (handleGetDeployments_sqlite (env_faults env) db, db)"
| "serve_sqlite env (GetPlatforms deployment) db =
     (handleGetPlatforms_sqlite (env_faults env) (Rep_segment deployment) db, db)"
| "serve_sqlite env (DownloadKML deployment) db =
     (handleDownloadKML (env_fmt env) (env_order env) (env_faults env) (Rep_segment deployment) db,
      db)"

fun serve_mongo :: "mongo_env \<Rightarrow> request \<Rightarrow> LocationDoc list \<Rightarrow> response \<times> LocationDoc list" where
  "serve_mongo env (PostLocation body) coll =
     handlePostLocation_mongo (menv_parse_time env) (menv_now env) (menv_faults env) body coll"
| "serve_mongo env (GetLocations deployment platform) coll =
     (handleGetLocations_mongo (menv_faults env) deployment platform coll, coll)"
| "serve_mongo env GetDeployments coll = (handleGetDeployments_mongo (menv_faults env) coll, coll)"
| "serve_mongo env (GetPlatforms deployment) coll =
     (handleGetPlatforms_mongo (menv_faults env) (Rep_segment deployment) coll, coll)"
| "serve_mongo env (DownloadKML deployment) coll =
     (\<lparr>status = StatusNotFound, headers = [(''Content-Type'', ''text/plain'')],
       payload = NoRoute\<rparr>, coll)"

fun run_sqlite :: "(sqlite_env \<times> request) list \<Rightarrow> Location list \<Rightarrow> Location list" where
  "run_sqlite [] db = db"
| "run_sqlite ((env, req) # rest) db = run_sqlite rest (snd (serve_sqlite env req db))"

fun run_mongo :: "(mongo_env \<times> request) list \<Rightarrow> LocationDoc list \<Rightarrow> LocationDoc list" where
  "run_mongo [] coll = coll"
| "run_mongo ((env, req) # rest) coll = run_mongo rest (snd (serve_mongo env req coll))"

section \<open>Predicates on the exported text\<close>

text \<open>
  \<open>occ p s\<close> counts the positions of \<open>s\<close> at which the text \<open>p\<close> starts.
\<close>

fun occ :: "string \<Rightarrow> string \<Rightarrow> nat" where
  "occ p [] = 0"
| "occ p (c # cs) = (if prefix p (c # cs) then 1 else 0) + occ p cs"

text \<open>
  A well-formedness check for the part of XML that the export writes: processing
  instructions, start and end tags with ASCII names, empty-element tags, character data
  and references. It reads the text once, keeping the names of the open elements. The
  text is well formed when every tag closes the element opened last, character data
  outside the single root element is white space, no \<^verbatim>\<open><\<close> occurs inside markup, and
  every \<^verbatim>\<open>&\<close> starts a reference that ends in \<^verbatim>\<open>;\<close>.
\<close>

datatype xmode = Content | Markup string | Reference string | Failed

record xstate =
  xmode :: xmode
  open_tags :: "string list"
  roots :: nat

definition is_space :: "char \<Rightarrow> bool" where
  "is_space c \<longleftrightarrow> c \<in> set [CHR '' '', CHR 0x0A, CHR 0x09, CHR 0x0D]"

definition is_name_start :: "char \<Rightarrow> bool" where
  "is_name_start c \<longleftrightarrow>
     c \<in> set ''abcdefghijklmnopqrstuvwxyzABCDEFGHIJKLMNOPQRSTUVWXYZ_:''"

definition is_name_char :: "char \<Rightarrow> bool" where
  "is_name_char c \<longleftrightarrow> is_name_start c \<or> c \<in> set ''0123456789-.''"

definition end_markup :: "string \<Rightarrow> xstate \<Rightarrow> xstate" where
  "end_markup t st =
     (case t of
        [] \<Rightarrow> st\<lparr>xmode := Failed\<rparr>
      | c # cs \<Rightarrow>
          if c = CHR ''?'' then
            (if cs \<noteq> [] \<and> is_name_start (hd cs) \<and> last cs = CHR ''?''
             then st\<lparr>xmode := Content\<rparr> else st\<lparr>xmode := Failed\<rparr>)
          else if c = CHR ''/'' then
            (case open_tags st of
               [] \<Rightarrow> st\<lparr>xmode := Failed\<rparr>
             | n # ns \<Rightarrow>
                 if takeWhile (\<lambda>x. \<not> is_space x) cs = n \<and>
                    list_all is_space (dropWhile (\<lambda>x. \<not> is_space x) cs)
                 then st\<lparr>xmode := Content, open_tags := ns,
                         roots := (if ns = [] then Suc (roots st) else roots st)\<rparr>
                 else st\<lparr>xmode := Failed\<rparr>)
          else
            (let n = takeWhile (\<lambda>x. \<not> is_space x \<and> x \<noteq> CHR ''/'') t in
             if is_name_start c \<and> list_all is_name_char n \<and>
                \<not> (open_tags st = [] \<and> 0 < roots st)
             then
               (if last t = CHR ''/''
                then st\<lparr>xmode := Content,
                        roots := (if open_tags st = [] then Suc (roots st) else roots st)\<rparr>
                else st\<lparr>xmode := Content, open_tags := n # open_tags st\<rparr>)
             else st\<lparr>xmode := Failed\<rparr>))"

definition xstep :: "char \<Rightarrow> xstate \<Rightarrow> xstate" where
  "xstep c st =
     (case xmode st of
        Failed \<Rightarrow> st
      | Content \<Rightarrow>
          if c = CHR ''<'' then st\<lparr>xmode := Markup []\<rparr>
          else if open_tags st = [] then
            (if is_space c then st else st\<lparr>xmode := Failed\<rparr>)
          else if c = CHR ''&'' then st\<lparr>xmode := Reference []\<rparr>
          else st
      | Markup t \<Rightarrow>
          if c = CHR ''>'' then end_markup t st
          else if c = CHR ''<'' then st\<lparr>xmode := Failed\<rparr>
          else st\<lparr>xmode := Markup (t @ [c])\<rparr>
      | Reference r \<Rightarrow>
          if c = CHR '';'' then
            (if r \<noteq> [] then st\<lparr>xmode := Content\<rparr> else st\<lparr>xmode := Failed\<rparr>)
          else if is_name_char c \<or> c = CHR ''#'' then st\<lparr>xmode := Reference (r @ [c])\<rparr>
          else st\<lparr>xmode := Failed\<rparr>)"

definition well_formed :: "string \<Rightarrow> bool" where
  "well_formed s =
     (let st = fold xstep s \<lparr>xmode = Content, open_tags = [], roots = 0\<rparr>
      in xmode st = Content \<and> open_tags st = [] \<and> roots st = 1)"

section \<open>Predicates on requests and results\<close>

text \<open>
  A body is malformed when it is not JSON, is a JSON value other than an object or
  \<^verbatim>\<open>null\<close>, or is an object in which some key of a string field carries a value that is
  neither a string nor \<^verbatim>\<open>null\<close>, or some key of a number field a value that is neither a
  number in range nor \<^verbatim>\<open>null\<close>.
\<close>

fun string_or_null :: "json \<Rightarrow> bool" where
  "string_or_null JNull = True"
| "string_or_null (JStr s) = True"
| "string_or_null v = False"

fun number_or_null :: "json \<Rightarrow> bool" where
  "number_or_null JNull = True"
| "number_or_null (JNum x) = True"
| "number_or_null v = False"

definition wrong_type :: "string \<times> json \<Rightarrow> bool" where
  "wrong_type = (\<lambda>(k, v).
     ((key_is ''deployment'' k \<or> key_is ''platform'' k \<or> key_is ''timestamp'' k \<or>
       key_is ''source'' k) \<and> \<not> string_or_null v) \<or>
     ((key_is ''latitude'' k \<or> key_is ''longitude'' k) \<and> \<not> number_or_null v))"

fun malformed :: "json option \<Rightarrow> bool" where
  "malformed None = True"
| "malformed (Some JNull) = False"
| "malformed (Some (JObj kvs)) = list_ex wrong_type kvs"
| "malformed (Some v) = True"

text \<open>
  The fields a client sees in both variants are the six fields of \<open>Location\<close>;
  \<open>count_visible loc rs\<close> is the number of records of \<open>rs\<close> whose six fields are those
  of \<open>loc\<close>.
\<close>

definition count_visible :: "Location \<Rightarrow> 'a Location_scheme list \<Rightarrow> nat" where
  "count_visible loc rs = count_list (map Location.truncate rs) loc"

definition is_read :: "request \<Rightarrow> bool" where
  "is_read req \<longleftrightarrow> (case req of PostLocation body \<Rightarrow> False | _ \<Rightarrow> True)"

definition has_route_mongo :: "request \<Rightarrow> bool" where
  "has_route_mongo req \<longleftrightarrow> (case req of DownloadKML d \<Rightarrow> False | _ \<Rightarrow> True)"

text \<open>
  \<open>group_of rows p\<close> is the points of the rows of platform \<open>p\<close>, in the order of
  \<open>rows\<close>.
\<close>

definition group_of :: "Location list \<Rightarrow> string \<Rightarrow> point list" where
  "group_of rows p = map point_of (filter (\<lambda>r. Platform r = p) rows)"





section \<open>Example inputs\<close>

text \<open>
  Requests, records and surroundings at which the properties below are instantiated.
  Numbers are IEEE 754 bit patterns (\<open>0x3FF0000000000000\<close> is 1.0), times are
  nanoseconds since the Unix epoch, and \<open>parse_fixed\<close> reads one RFC 3339 string.
  \<open>rows_example\<close> is the rows of deployment \<^verbatim>\<open>D1\<close> in \<open>db_example\<close>, ordered by
  timestamp. \<open>fmt_example\<close> writes the numbers 1.0 to 6.0 as \<^verbatim>\<open>%f\<close> does.
\<close>

definition body_example :: "json option" where
  "body_example =
     Some (JObj [(''deployment'', JStr ''D1''), (''platform'', JStr ''P1''),
                 (''timestamp'', JStr ''2024-01-01T00:00:00Z''),
                 (''latitude'', JNum 0x3FF0000000000000), (''longitude'', JNum 0x4000000000000000)])"

definition rec_example :: Location where
  "rec_example = \<lparr>Deployment = ''D1'', Platform = ''P1'', Latitude = 0x3FF0000000000000,
            Longitude = 0x4000000000000000, Timestamp = ''2024-01-01T00:00:00Z'', Source = []\<rparr>"

definition rec_c :: Location where
  "rec_c = \<lparr>Deployment = ''D1'', Platform = ''P1'', Latitude = 0x4014000000000000,
            Longitude = 0x4018000000000000, Timestamp = ''2024-01-01T12:00:00Z'', Source = []\<rparr>"

definition rec_d :: Location where
  "rec_d = \<lparr>Deployment = ''D2'', Platform = ''P3'', Latitude = 0x401C000000000000,
            Longitude = 0x4020000000000000, Timestamp = ''2024-01-03T00:00:00Z'', Source = []\<rparr>"

definition rec_lt :: Location where
  "rec_lt = \<lparr>Deployment = ''D1'', Platform = ''A<B'', Latitude = 0x3FF0000000000000,
             Longitude = 0x4000000000000000, Timestamp = ''2024-01-01T00:00:00Z'', Source = []\<rparr>"

definition rec_amp :: Location where
  "rec_amp = \<lparr>Deployment = ''D1'', Platform = ''P1'', Latitude = 0x3FF0000000000000,
              Longitude = 0x4000000000000000, Timestamp = ''noon & after'', Source = []\<rparr>"

definition fmt_fixed :: "float64 \<Rightarrow> string" where
  "fmt_fixed x = ''1.000000''"

definition fmt_example :: "float64 \<Rightarrow> string" where
  "fmt_example x =
     (if x = 0x3FF0000000000000 then ''1.000000''
      else if x = 0x4000000000000000 then ''2.000000''
      else if x = 0x4008000000000000 then ''3.000000''
      else if x = 0x4010000000000000 then ''4.000000''
      else if x = 0x4014000000000000 then ''5.000000''
      else if x = 0x4018000000000000 then ''6.000000''
      else ''0.000000'')"

definition seg_D1 :: segment where
  "seg_D1 = Abs_segment ''D1''"

definition body_neg_zero :: "json option" where
  "body_neg_zero =
     Some (JObj [(''deployment'', JStr ''D1''), (''platform'', JStr ''P1''),
                 (''timestamp'', JStr ''2024-01-01T00:00:00Z''),
                 (''latitude'', JNum 0x8000000000000000), (''longitude'', JNum 0x4000000000000000)])"

definition rec_neg_zero :: Location where
  "rec_neg_zero = \<lparr>Deployment = ''D1'', Platform = ''P1'', Latitude = 0x8000000000000000,
            Longitude = 0x4000000000000000, Timestamp = ''2024-01-01T00:00:00Z'', Source = []\<rparr>"

definition body_with_created_at :: "json option" where
  "body_with_created_at =
     Some (JObj [(''deployment'', JStr ''D1''), (''platform'', JStr ''P1''),
                 (''timestamp'', JStr ''2024-01-01T00:00:00Z''),
                 (''latitude'', JNum 0x3FF0000000000000), (''longitude'', JNum 0x4000000000000000),
                 (''source'', JStr ''archive''), (''created_at'', JStr ''2020-01-01T00:00:00Z'')])"

definition rec_a :: Location where
  "rec_a = \<lparr>Deployment = ''D1'', Platform = ''P1'', Latitude = 0x3FF0000000000000,
            Longitude = 0x4000000000000000, Timestamp = ''2024-01-02T00:00:00Z'', Source = []\<rparr>"

definition rec_b :: Location where
  "rec_b = \<lparr>Deployment = ''D1'', Platform = ''P2'', Latitude = 0x4008000000000000,
            Longitude = 0x4010000000000000, Timestamp = ''2024-01-01T00:00:00Z'', Source = []\<rparr>"

definition doc_a :: LocationDoc where
  "doc_a = Location.extend rec_a (LocationDoc.fields 1700000000123000000)"

definition doc_b :: LocationDoc where
  "doc_b = Location.extend rec_b (LocationDoc.fields 1700000000456000000)"

definition no_faults :: sqlite_faults where
  "no_faults = \<lparr>prepare_err = None, exec_err = None, query_err = None, scan_err = None\<rparr>"

definition no_mfaults :: mongo_faults where
  "no_mfaults = \<lparr>insert_err = None, find_err = None, cursor_err = None, distinct_err = None\<rparr>"

definition parse_fixed :: "string \<Rightarrow> time option" where
  "parse_fixed s = (if s = ''2020-01-01T00:00:00Z'' then Some 1577836800000000000 else None)"

definition body_no_platform :: "json option" where
  "body_no_platform =
     Some (JObj [(''deployment'', JStr ''D1''), (''timestamp'', JStr ''2024-01-01T00:00:00Z''),
                 (''latitude'', JNum 0x3FF0000000000000), (''longitude'', JNum 0x4000000000000000)])"

definition body_bad_latitude :: "json option" where
  "body_bad_latitude =
     Some (JObj [(''deployment'', JStr ''D1''), (''platform'', JStr ''P1''),
                 (''timestamp'', JStr ''2024-01-01T00:00:00Z''),
                 (''latitude'', JStr ''north''), (''longitude'', JNum 0x4000000000000000)])"

definition db_example :: "Location list" where
  "db_example = [rec_a, rec_b, rec_c, rec_d]"

definition rows_example :: "Location list" where
  "rows_example = [rec_b, rec_c, rec_a]"

definition env_example :: sqlite_env where
  "env_example = \<lparr>env_faults = no_faults, env_fmt = fmt_fixed, env_order = [''P2'', ''P1'']\<rparr>"

definition menv_example :: mongo_env where
  "menv_example =
     \<lparr>menv_faults = no_mfaults, menv_parse_time = parse_fixed, menv_now = 1700000000123456789\<rparr>"

definition doc_example :: "time \<Rightarrow> LocationDoc" where
  "doc_example t = Location.extend rec_example (LocationDoc.fields t)"

section \<open>Ingestion\<close>

lemma not_NaN_examples:
  "\<not> is_NaN 0x3FF0000000000000" "\<not> is_NaN 0x4000000000000000" "\<not> is_NaN 0x8000000000000000"
  by (simp_all add: is_NaN_def)

lemma sqlite_real_examples:
  "sqlite_real 0x3FF0000000000000 = 0x3FF0000000000000"
  "sqlite_real 0x4000000000000000 = 0x4000000000000000"
  "sqlite_real 0x8000000000000000 = 0"
  by (simp_all add: sqlite_real_def neg_zero_def)

lemma stored_row_same:
  "Latitude r \<noteq> neg_zero \<Longrightarrow> Longitude r \<noteq> neg_zero \<Longrightarrow> stored_row r = r"
  by (simp add: stored_row_def sqlite_real_def)

lemma post_sqlite_accepted:
  assumes "handlePostLocation_sqlite flt body db = (resp, db')" and "status resp = StatusOK"
  shows "\<exists>loc. ShouldBindJSON_sqlite body = Inr loc \<and> db' = db @ [stored_row loc]"
  using assms
  by (auto simp: handlePostLocation_sqlite_def stmt_Exec_def JSON_def StatusOK_def
      StatusBadRequest_def StatusInternalServerError_def
      split: sum.splits option.splits if_splits)

lemma key_is_tags:
  "key_is ''deployment'' ''deployment''"
  "\<not> key_is ''deployment'' ''platform''"  "key_is ''platform'' ''platform''"
  "\<not> key_is ''deployment'' ''latitude''" "\<not> key_is ''platform'' ''latitude''" "key_is ''latitude'' ''latitude''"
  "\<not> key_is ''deployment'' ''longitude''" "\<not> key_is ''platform'' ''longitude''" "\<not> key_is ''latitude'' ''longitude''" "key_is ''longitude'' ''longitude''"
  "\<not> key_is ''deployment'' ''timestamp''" "\<not> key_is ''platform'' ''timestamp''" "\<not> key_is ''latitude'' ''timestamp''" "\<not> key_is ''longitude'' ''timestamp''" "key_is ''timestamp'' ''timestamp''"
  "\<not> key_is ''deployment'' ''source''" "\<not> key_is ''platform'' ''source''" "\<not> key_is ''latitude'' ''source''" "\<not> key_is ''longitude'' ''source''" "\<not> key_is ''timestamp'' ''source''" "key_is ''source'' ''source''"
  "\<not> key_is ''created_at'' ''deployment''" "\<not> key_is ''created_at'' ''platform''" "\<not> key_is ''created_at'' ''latitude''" "\<not> key_is ''created_at'' ''longitude''" "\<not> key_is ''created_at'' ''timestamp''" "\<not> key_is ''created_at'' ''source''" "key_is ''created_at'' ''created_at''"
  by (simp_all add: key_is_def fold_char_def)

lemma put_string_Inl: "\<not> string_or_null v \<Longrightarrow> put_string v cur = Inl TypeMismatch"
  by (cases v) simp_all

lemma put_float_Inl: "\<not> number_or_null v \<Longrightarrow> put_float v cur = Inl TypeMismatch"
  by (cases v) simp_all

lemma set_field_wrong_type:
  "wrong_type (k, v) \<Longrightarrow> set_field k v loc = Inl TypeMismatch"
  by (auto simp: wrong_type_def set_field_def key_is_def fold_char_def put_string_Inl put_float_Inl)

lemma set_field_doc_wrong_type:
  assumes "wrong_type (k, v)"
  shows "set_field_doc pt k v loc = Inl TypeMismatch"
proof (cases "key_is ''created_at'' k")
  case True
  then have "foldName k = ''CREATED_AT''"
    by (simp add: key_is_def fold_char_def)
  then have "\<not> wrong_type (k, v)"
    by (simp add: wrong_type_def key_is_def fold_char_def)
  with assms show ?thesis by simp
next
  case False
  with assms show ?thesis by (simp add: set_field_doc_def set_field_wrong_type)
qed

lemma decode_object_fails:
  assumes "(k, v) \<in> set kvs" and "\<And>loc. \<exists>e. setf k v loc = Inl e"
  shows "\<exists>e. decode_object setf kvs loc = Inl e"
  using assms(1)
proof (induction kvs arbitrary: loc)
  case Nil
  then show ?case by simp
next
  case (Cons kv kvs)
  obtain k' v' where kv: "kv = (k', v')" by (cases kv)
  show ?case
  proof (cases "setf k' v' loc")
    case (Inl e)
    then show ?thesis by (simp add: kv)
  next
    case (Inr loc')
    with assms(2) [of loc] have "(k', v') \<noteq> (k, v)" by auto
    with Cons.prems kv have "(k, v) \<in> set kvs" by auto
    from Cons.IH [OF this, of loc'] Inr show ?thesis by (simp add: kv)
  qed
qed

lemma malformed_sqlite: "malformed body \<Longrightarrow> \<exists>e. ShouldBindJSON_sqlite body = Inl e"
proof (induction body rule: malformed.induct)
  case (3 kvs)
  then obtain k v where kv: "(k, v) \<in> set kvs" "wrong_type (k, v)"
    by (auto simp: list_ex_iff)
  have "\<exists>e. decode_object set_field kvs zero_Location = Inl e"
    by (rule decode_object_fails [OF kv(1)]) (simp add: set_field_wrong_type [OF kv(2)])
  then show ?case
    by (simp add: ShouldBindJSON_sqlite_def)
qed (simp_all add: ShouldBindJSON_sqlite_def)

lemma malformed_mongo: "malformed body \<Longrightarrow> \<exists>e. ShouldBindJSON_mongo pt body = Inl e"
proof (induction body rule: malformed.induct)
  case (3 kvs)
  then obtain k v where kv: "(k, v) \<in> set kvs" "wrong_type (k, v)"
    by (auto simp: list_ex_iff)
  have "\<exists>e. decode_object (set_field_doc pt) kvs zero_LocationDoc = Inl e"
    by (rule decode_object_fails [OF kv(1)]) (simp add: set_field_doc_wrong_type [OF kv(2)])
  then show ?case
    by (simp add: ShouldBindJSON_mongo_def)
qed (simp_all add: ShouldBindJSON_mongo_def)

text \<open>
  C1, as amended. A request whose body is malformed (not JSON, not an object, or with a
  field of the wrong JSON type) is answered with status 400 by both variants and leaves
  the store as it was. Omitting a field is not among the causes of rejection.
\<close>

theorem post_malformed_rejected:
  assumes "malformed body"
  shows "(\<exists>e. handlePostLocation_mongo pt now mflt body coll =
               (JSON StatusBadRequest (ErrorMsg (BindError e)), coll)) \<and>
         (\<exists>e. handlePostLocation_sqlite flt body db =
               (JSON StatusBadRequest (ErrorMsg (BindError e)), db))"
proof -
  from malformed_mongo [OF assms] obtain e1 where "ShouldBindJSON_mongo pt body = Inl e1" ..
  moreover from malformed_sqlite [OF assms] obtain e2 where "ShouldBindJSON_sqlite body = Inl e2" ..
  ultimately show ?thesis
    by (simp add: handlePostLocation_mongo_def handlePostLocation_sqlite_def JSON_def)
qed

theorem post_malformed_rejected_witness:
  "malformed body_bad_latitude \<and>
   (\<exists>e. handlePostLocation_mongo parse_fixed 0 no_mfaults body_bad_latitude [] =
      (JSON StatusBadRequest (ErrorMsg (BindError e)), [])) \<and>
   (\<exists>e. handlePostLocation_sqlite no_faults body_bad_latitude [] =
      (JSON StatusBadRequest (ErrorMsg (BindError e)), []))"
proof -
  have m: "malformed body_bad_latitude"
    by (simp add: body_bad_latitude_def wrong_type_def key_is_tags)
  from post_malformed_rejected [OF m, of parse_fixed 0 no_mfaults "[]" no_faults "[]"]
  show ?thesis using m by simp
qed

text \<open>
  The claim C1 as first stated fails: a body that omits \<^verbatim>\<open>platform\<close> is accepted by both
  variants with status 200, and a record with the empty platform is stored.
\<close>

theorem post_missing_platform_accepted:
  "handlePostLocation_mongo parse_fixed 1700000000123456789 no_mfaults body_no_platform [] =
     (JSON StatusOK StatusSuccess,
      [\<lparr>Deployment = ''D1'', Platform = [], Latitude = 0x3FF0000000000000,
        Longitude = 0x4000000000000000, Timestamp = ''2024-01-01T00:00:00Z'', Source = [],
        CreatedAt = 1700000000123000000\<rparr>]) \<and>
   handlePostLocation_sqlite no_faults body_no_platform [] =
     (JSON StatusOK StatusSuccess,
      [\<lparr>Deployment = ''D1'', Platform = [], Latitude = 0x3FF0000000000000,
        Longitude = 0x4000000000000000, Timestamp = ''2024-01-01T00:00:00Z'', Source = []\<rparr>])"
  by (simp add: handlePostLocation_mongo_def handlePostLocation_sqlite_def body_no_platform_def
      no_mfaults_def no_faults_def ShouldBindJSON_mongo_def ShouldBindJSON_sqlite_def
      set_field_doc_def set_field_def key_is_tags zero_LocationDoc_def zero_Location_def
      bson_time_def stmt_Exec_def stored_row_def not_NaN_examples sqlite_real_examples)

lemma bind_body_with_created_at:
  "ShouldBindJSON_mongo parse_fixed body_with_created_at =
     Inr \<lparr>Deployment = ''D1'', Platform = ''P1'', Latitude = 0x3FF0000000000000,
          Longitude = 0x4000000000000000, Timestamp = ''2024-01-01T00:00:00Z'',
          Source = ''archive'', CreatedAt = 1577836800000000000\<rparr>"
  by (simp add: body_with_created_at_def ShouldBindJSON_mongo_def set_field_doc_def set_field_def
      key_is_tags zero_LocationDoc_def parse_fixed_def)

lemma post_body_with_created_at:
  "handlePostLocation_mongo parse_fixed 1700000000123456789 no_mfaults body_with_created_at [] =
     (JSON StatusOK StatusSuccess,
      [\<lparr>Deployment = ''D1'', Platform = ''P1'', Latitude = 0x3FF0000000000000,
        Longitude = 0x4000000000000000, Timestamp = ''2024-01-01T00:00:00Z'',
        Source = ''archive'', CreatedAt = 1700000000123000000\<rparr>])"
  by (simp add: handlePostLocation_mongo_def bind_body_with_created_at no_mfaults_def bson_time_def)

text \<open>
  C8. Whenever the document-store handler accepts a submission, the collection grows by
  exactly one document: the struct bound from the body with its \<^verbatim>\<open>CreatedAt\<close> replaced by
  the server's clock reading (kept to the millisecond), whatever \<^verbatim>\<open>created_at\<close> the body
  carried, and with its other six fields as bound.
\<close>

theorem post_assigns_created_at:
  assumes "handlePostLocation_mongo pt now flt body coll = (resp, coll')"
    and "status resp = StatusOK"
  shows "\<exists>loc. ShouldBindJSON_mongo pt body = Inr loc \<and>
               coll' = coll @ [loc\<lparr>CreatedAt := bson_time now\<rparr>]"
  using assms
  by (auto simp: handlePostLocation_mongo_def JSON_def StatusOK_def StatusBadRequest_def
      StatusInternalServerError_def Let_def split: sum.splits option.splits)

theorem post_assigns_created_at_witness:
  "handlePostLocation_mongo parse_fixed 1700000000123456789 no_mfaults body_with_created_at [] =
     (JSON StatusOK StatusSuccess,
      [\<lparr>Deployment = ''D1'', Platform = ''P1'', Latitude = 0x3FF0000000000000,
        Longitude = 0x4000000000000000, Timestamp = ''2024-01-01T00:00:00Z'',
        Source = ''archive'', CreatedAt = 1700000000123000000\<rparr>]) \<and>
   status (JSON StatusOK StatusSuccess) = StatusOK \<and>
   (\<exists>loc. ShouldBindJSON_mongo parse_fixed body_with_created_at = Inr loc \<and>
      CreatedAt loc = 1577836800000000000 \<and>
      [\<lparr>Deployment = ''D1'', Platform = ''P1'', Latitude = 0x3FF0000000000000,
        Longitude = 0x4000000000000000, Timestamp = ''2024-01-01T00:00:00Z'',
        Source = ''archive'', CreatedAt = 1700000000123000000\<rparr>] =
      [] @ [loc\<lparr>CreatedAt := bson_time 1700000000123456789\<rparr>])"
proof -
  have s: "status (JSON StatusOK StatusSuccess) = StatusOK" by (simp add: JSON_def)
  from post_assigns_created_at [OF post_body_with_created_at s]
  show ?thesis using s post_body_with_created_at by (auto simp: bind_body_with_created_at)
qed

section \<open>Queries\<close>

lemma matches_deployment [simp]: "matches [(''deployment'', d)] r \<longleftrightarrow> Deployment r = d"
  by (simp add: matches_def bson_field_def)

lemma matches_Nil [simp]: "matches [] r"
  by (simp add: matches_def)

lemma matches_query_filter:
  "matches (query_filter deployment platform) r \<longleftrightarrow>
     (deployment = [] \<or> Deployment r = deployment) \<and> (platform = [] \<or> Platform r = platform)"
  by (simp add: matches_def query_filter_def bson_field_def)

lemma distinct_values_Nil_iff [simp]: "distinct_values xs = [] \<longleftrightarrow> xs = []"
  by (cases xs) simp_all

lemmas status_defs = StatusOK_def StatusBadRequest_def StatusNotFound_def StatusInternalServerError_def

lemma read_status_sqlite:
  assumes "is_read req"
  shows "(query_err (env_faults env) = None \<and> scan_err (env_faults env) = None \<longrightarrow>
            status (fst (serve_sqlite env req db)) = StatusOK) \<and>
         status (fst (serve_sqlite env req db)) \<in> {StatusOK, StatusInternalServerError}"
  using assms
  by (cases req)
     (auto simp: is_read_def handleGetLocations_sqlite_def handleGetDeployments_sqlite_def
       handleGetPlatforms_sqlite_def handleDownloadKML_def db_Query_def scan_rows_def JSON_def
       split: option.splits sum.splits if_splits)

lemma read_status_mongo:
  assumes "is_read req" "has_route_mongo req"
  shows "(find_err (menv_faults env) = None \<and> cursor_err (menv_faults env) = None \<and>
          distinct_err (menv_faults env) = None \<longrightarrow>
            status (fst (serve_mongo env req coll)) = StatusOK) \<and>
         status (fst (serve_mongo env req coll)) \<in> {StatusOK, StatusInternalServerError}"
  using assms
  by (cases req)
     (auto simp: is_read_def has_route_mongo_def handleGetLocations_mongo_def
       handleGetDeployments_mongo_def handleGetPlatforms_mongo_def collection_Find_def
       cursor_All_def collection_Distinct_def JSON_def
       split: option.splits sum.splits if_splits)

lemma platforms_unknown_deployment:
  assumes "\<forall>r \<in> set db. Deployment r \<noteq> d" and "\<forall>r \<in> set coll. Deployment r \<noteq> d"
    and "query_err flt = None" and "distinct_err mflt = None"
  shows "handleGetPlatforms_sqlite flt d db = JSON StatusOK (Strings NilSlice) \<and>
         handleGetPlatforms_mongo mflt d coll = JSON StatusOK (Strings (Slice []))"
proof -
  from assms(1) have "filter (\<lambda>r. Deployment r = d) db = []"
    by (simp add: filter_empty_conv)
  moreover from assms(2) have "filter (matches [(''deployment'', d)]) coll = []"
    by (simp add: filter_empty_conv)
  ultimately show ?thesis
    using assms(3,4)
    by (simp add: handleGetPlatforms_sqlite_def handleGetPlatforms_mongo_def db_Query_def
        scan_rows_def collection_Distinct_def appended_def split: option.splits)
qed

text \<open>
  C6 holds for the document-store variant and fails for the relational variant. Asked
  for the platforms of a deployment that no record carries, both answer with status 200
  and no error. \<^verbatim>\<open>main.go\<close> hands \<^verbatim>\<open>c.JSON\<close> the slice that \<^verbatim>\<open>Distinct\<close> made, which is empty
  and written as \<^verbatim>\<open>[]\<close>. The relational handler hands it the slice variable that its row
  loop never appended to, which is nil and written as \<^verbatim>\<open>null\<close>: the response carries no
  sequence. (For every store without a record of the deployment: lemma
  \<open>platforms_unknown_deployment\<close>. That no read request is answered with a not-found
  status for want of data: lemmas \<open>read_status_sqlite\<close> and \<open>read_status_mongo\<close>.)
\<close>

theorem platforms_unknown_deployment_nil:
  "handleGetPlatforms_sqlite no_faults ''D9'' [rec_a, rec_b] = JSON StatusOK (Strings NilSlice) \<and>
   marshal_strings NilSlice = JNull \<and>
   handleGetPlatforms_mongo no_mfaults ''D9'' [doc_a, doc_b] = JSON StatusOK (Strings (Slice [])) \<and>
   marshal_strings (Slice []) = JArr [] \<and>
   Deployment rec_a = ''D1'' \<and> Deployment rec_b = ''D1''"
  by (simp add: handleGetPlatforms_sqlite_def handleGetPlatforms_mongo_def db_Query_def
      scan_rows_def collection_Distinct_def appended_def no_faults_def no_mfaults_def
      rec_a_def rec_b_def doc_a_def doc_b_def Location.extend_def)

lemma handleGetLocations_mongo_sorted:
  assumes "handleGetLocations_mongo flt deployment platform coll = JSON StatusOK (LocationDocs ls)"
  shows "sorted (map Timestamp (elems ls))"
  using assms
  by (auto simp: handleGetLocations_mongo_def collection_Find_def cursor_All_def JSON_def
      status_defs appended_def split: option.splits sum.splits if_splits)

lemma handleGetLocations_mongo_filters:
  assumes "find_err flt = None" "cursor_err flt = None"
  shows "handleGetLocations_mongo flt deployment platform coll =
     JSON StatusOK (LocationDocs (appended (sort_key Timestamp
       (filter (\<lambda>r. (deployment = [] \<or> Deployment r = deployment) \<and>
                     (platform = [] \<or> Platform r = platform)) coll))))"
  using assms
  by (simp add: handleGetLocations_mongo_def collection_Find_def cursor_All_def
      matches_query_filter [abs_def])

lemma elems_appended [simp]: "elems (appended xs) = xs"
  by (simp add: appended_def)

text \<open>
  C2 holds for the document-store variant (lemma \<open>handleGetLocations_mongo_sorted\<close>). The
  relational variant issues its query without \<^verbatim>\<open>ORDER BY\<close>: with a later timestamp
  stored before an earlier one, the unfiltered list comes back in table order, which is
  not ascending by timestamp. On the same records the document-store variant returns the
  earlier timestamp first.
\<close>

theorem getLocations_sqlite_insertion_order:
  "handleGetLocations_sqlite no_faults [] [] [rec_a, rec_b] =
     JSON StatusOK (Locations (Slice [rec_a, rec_b])) \<and>
   Timestamp rec_a = ''2024-01-02T00:00:00Z'' \<and> Timestamp rec_b = ''2024-01-01T00:00:00Z'' \<and>
   \<not> sorted (map Timestamp [rec_a, rec_b]) \<and>
   handleGetLocations_mongo no_mfaults [] [] [doc_a, doc_b] =
     JSON StatusOK (LocationDocs (Slice [doc_b, doc_a]))"
  by (simp add: handleGetLocations_sqlite_def db_Query_def scan_rows_def where_clause_def
      no_faults_def rec_a_def rec_b_def handleGetLocations_mongo_filters no_mfaults_def
      doc_a_def doc_b_def Location.extend_def LocationDoc.fields_def appended_def)

text \<open>
  C3 holds for the document-store variant (lemma \<open>handleGetLocations_mongo_filters\<close>). The
  relational variant adds the platform condition only inside the branch for a non-empty
  deployment: asked for platform \<^verbatim>\<open>P1\<close> alone, it returns a record of platform \<^verbatim>\<open>P2\<close> as
  well. On the same records the document-store variant returns the \<^verbatim>\<open>P1\<close> record only.
\<close>

theorem getLocations_sqlite_platform_only:
  "handleGetLocations_sqlite no_faults [] ''P1'' [rec_a, rec_b] =
     JSON StatusOK (Locations (Slice [rec_a, rec_b])) \<and>
   Platform rec_a = ''P1'' \<and> Platform rec_b = ''P2'' \<and>
   handleGetLocations_mongo no_mfaults [] ''P1'' [doc_a, doc_b] =
     JSON StatusOK (LocationDocs (Slice [doc_a]))"
  by (simp add: handleGetLocations_sqlite_def db_Query_def scan_rows_def where_clause_def
      no_faults_def rec_a_def rec_b_def handleGetLocations_mongo_filters no_mfaults_def
      doc_a_def doc_b_def Location.extend_def LocationDoc.fields_def appended_def)

lemma count_visible_sort_key [simp]:
  "count_visible loc (sort_key f rs) = count_visible loc rs"
proof -
  have "mset (map Location.truncate (sort_key f rs)) = mset (map Location.truncate rs)"
    by simp
  then show ?thesis
    unfolding count_visible_def by (metis count_mset)
qed

lemma count_visible_snoc [simp]:
  "count_visible loc (rs @ [r]) = count_visible loc rs + (if Location.truncate r = loc then 1 else 0)"
  by (simp add: count_visible_def)

lemma truncate_CreatedAt [simp]:
  "Location.truncate (r\<lparr>CreatedAt := t\<rparr>) = Location.truncate r"
  by (simp add: Location.truncate_def)

lemma truncate_Location [simp]: "Location.truncate (r :: Location) = r"
  by (simp add: Location.truncate_def)

lemma query_filter_empty [simp]: "query_filter [] [] = []"
  by (simp add: query_filter_def)

section \<open>The store over a run of requests\<close>

lemma post_sqlite_prefix: "prefix db (snd (handlePostLocation_sqlite flt body db))"
  by (auto simp: handlePostLocation_sqlite_def stmt_Exec_def
      split: sum.splits option.splits if_splits)

lemma post_mongo_prefix: "prefix coll (snd (handlePostLocation_mongo pt now flt body coll))"
  by (simp add: handlePostLocation_mongo_def Let_def split: sum.splits option.splits)

lemma serve_sqlite_prefix: "prefix db (snd (serve_sqlite env req db))"
  by (cases req) (simp_all add: post_sqlite_prefix)

lemma serve_mongo_prefix: "prefix coll (snd (serve_mongo env req coll))"
  by (cases req) (simp_all add: post_mongo_prefix)

lemma run_sqlite_prefix: "prefix db (run_sqlite reqs db)"
proof (induction reqs arbitrary: db)
  case Nil
  then show ?case by simp
next
  case (Cons a reqs)
  obtain env req where a: "a = (env, req)" by (cases a)
  have "prefix db (snd (serve_sqlite env req db))" by (rule serve_sqlite_prefix)
  also have "prefix \<dots> (run_sqlite reqs (snd (serve_sqlite env req db)))" by (rule Cons.IH)
  finally show ?case by (simp add: a)
qed

lemma run_mongo_prefix: "prefix coll (run_mongo reqs coll)"
proof (induction reqs arbitrary: coll)
  case Nil
  then show ?case by simp
next
  case (Cons a reqs)
  obtain env req where a: "a = (env, req)" by (cases a)
  have "prefix coll (snd (serve_mongo env req coll))" by (rule serve_mongo_prefix)
  also have "prefix \<dots> (run_mongo reqs (snd (serve_mongo env req coll)))" by (rule Cons.IH)
  finally show ?case by (simp add: a)
qed

lemma read_keeps_store:
  "is_read req \<Longrightarrow> snd (serve_sqlite env req db) = db \<and> snd (serve_mongo menv req coll) = coll"
  by (cases req) (simp_all add: is_read_def)

lemma platformData_snoc: "platformData (rows @ [r]) = add_point (platformData rows) r"
  by (simp add: platformData_def)

lemma platformData_lookup:
  "platformData rows p =
     (if p \<in> Platform ` set rows then Some (map point_of (filter (\<lambda>r. Platform r = p) rows))
      else None)"
proof (induction rows rule: rev_induct)
  case Nil
  then show ?case by (simp add: platformData_def)
next
  case (snoc r rows)
  show ?case
  proof (cases "Platform r = p")
    case True
    have "p \<notin> Platform ` set rows \<Longrightarrow> filter (\<lambda>r. Platform r = p) rows = []"
      by (auto simp: filter_empty_conv)
    with snoc True show ?thesis
      by (simp add: platformData_snoc add_point_def)
  next
    case False
    with snoc show ?thesis
      by (auto simp: platformData_snoc add_point_def)
  qed
qed

lemma dom_platformData: "dom (platformData rows) = Platform ` set rows"
  by (auto simp: dom_def platformData_lookup)

section \<open>Grouping by platform\<close>

lemma range_map_platformData:
  assumes "is_iteration_order (platformData rows) ord"
  shows "range_map (platformData rows) ord = map (\<lambda>p. (p, group_of rows p)) ord"
proof -
  from assms have sub: "set ord \<subseteq> Platform ` set rows"
    by (simp add: is_iteration_order_def dom_platformData)
  have "set ks \<subseteq> Platform ` set rows \<Longrightarrow>
        range_map (platformData rows) ks = map (\<lambda>p. (p, group_of rows p)) ks" for ks
    by (induction ks) (auto simp: range_map_def List.map_filter_simps platformData_lookup group_of_def)
  from this [OF sub] show ?thesis .
qed

lemma kml_placemarks_groups:
  assumes "is_iteration_order (platformData rows) ord"
  shows "kml_placemarks ord rows =
           concat (map (\<lambda>p. Track p (group_of rows p) # map Waypoint (group_of rows p)) ord)"
  by (simp add: kml_placemarks_def range_map_platformData [OF assms] platform_placemarks_def comp_def)

lemma sorted_group_of:
  assumes "sorted (map Timestamp rows)"
  shows "sorted (map point_Timestamp (group_of rows p))"
proof -
  have "map point_Timestamp (group_of rows p) = map Timestamp (filter (\<lambda>r. Platform r = p) rows)"
    by (simp add: group_of_def point_of_def comp_def)
  moreover have "sorted (map Timestamp (filter (\<lambda>r. Platform r = p) rows))"
    using assms by (rule sorted_filter)
  ultimately show ?thesis by simp
qed

lemma mset_kml_placemarks:
  assumes "is_iteration_order (platformData rows) ord"
    and "is_iteration_order (platformData rows) ord'"
  shows "mset (kml_placemarks ord rows) = mset (kml_placemarks ord' rows)"
proof -
  let ?g = "\<lambda>p. mset (Track p (group_of rows p) # map Waypoint (group_of rows p))"
  from assms have "mset ord = mset ord'"
    by (simp add: is_iteration_order_def set_eq_iff_mset_eq_distinct [symmetric])
  then have "sum_mset (image_mset ?g (mset ord)) = sum_mset (image_mset ?g (mset ord'))"
    by simp
  then have "sum_list (map ?g ord) = sum_list (map ?g ord')"
    by (simp flip: sum_mset_sum_list)
  then show ?thesis
    by (simp add: kml_placemarks_groups assms mset_concat comp_def)
qed





section \<open>Counting tags in the exported text\<close>

















section \<open>The exported document\<close>

lemmas rec_defs = rec_a_def rec_b_def rec_c_def rec_d_def rec_example_def rec_lt_def rec_amp_def

lemma db_Query_Inr:
  assumes "db_Query flt wh True db = Inr rows"
  shows "rows = sort_key Timestamp (filter wh db)" and "query_err flt = None"
  using assms by (auto simp: db_Query_def split: option.splits)

lemma handleDownloadKML_ok:
  assumes "db_Query flt (\<lambda>r. Deployment r = deployment) True db = Inr rows"
    and "scan_err flt = None"
  shows "handleDownloadKML fmt ord flt deployment db =
           \<lparr>status = StatusOK, headers = kml_headers deployment,
            payload = Document (kml_document fmt (kml_placemarks ord rows))\<rparr>"
  using assms by (simp add: handleDownloadKML_def scan_rows_def kml_headers_def)

lemma query_example:
  "db_Query no_faults (\<lambda>r. Deployment r = ''D1'') True db_example = Inr rows_example"
  by (simp add: db_Query_def no_faults_def db_example_def rows_example_def rec_defs)

lemma order_example:
  "is_iteration_order (platformData rows_example) [''P2'', ''P1'']"
  "is_iteration_order (platformData rows_example) [''P1'', ''P2'']"
  by (auto simp: is_iteration_order_def dom_platformData rows_example_def rec_defs)









section \<open>Order inside a platform group\<close>

lemma sorted_query:
  assumes "db_Query flt wh True db = Inr rows"
  shows "sorted (map Timestamp rows)"
  using db_Query_Inr(1) [OF assms] by simp

lemma concat_render_groups:
  "concat (map (render_placemark fmt) (concat (map (\<lambda>p. Track p (g p) # map Waypoint (g p)) ord))) =
   concat (map (\<lambda>p. render_placemark fmt (Track p (g p)) @
                      concat (map (\<lambda>pt. render_placemark fmt (Waypoint pt)) (g p))) ord)"
  by (induction ord) (simp_all add: comp_def)

lemma group_text:
  "render_placemark fmt (Track p (group_of rows p)) @
   concat (map (\<lambda>pt. render_placemark fmt (Waypoint pt)) (group_of rows p)) =
   track_open @ p @ track_middle @
   concat (map (\<lambda>r. fmt (Longitude r) @ '','' @ fmt (Latitude r) @ '',0 '')
            (filter (\<lambda>r. Platform r = p) rows)) @
   track_close @
   concat (map (\<lambda>r. waypoint_open @ Timestamp r @ waypoint_when @ Timestamp r @
                    waypoint_point @ fmt (Longitude r) @ '','' @ fmt (Latitude r) @
                    waypoint_close)
            (filter (\<lambda>r. Platform r = p) rows))"
  by (simp add: group_of_def coordinate_def point_of_def comp_def)

text \<open>
  C5. The grouping is a stable partition of the timestamp-ordered query result. For any
  iteration order of the map, the exported text is the document head, then for each
  platform in iteration order one \<^verbatim>\<open>LineString\<close> placemark whose coordinates are the
  \<^verbatim>\<open>longitude,latitude,0\<close> triples of the rows of that platform, followed by one waypoint
  placemark for each of these rows, then the document tail. In both places the rows of
  the platform stand in the order in which the query delivered them, which is ascending
  by timestamp: nothing is sorted again inside a group.
\<close>

theorem kml_groups_keep_query_order:
  assumes "db_Query flt (\<lambda>r. Deployment r = deployment) True db = Inr rows"
    and "scan_err flt = None"
    and "is_iteration_order (platformData rows) ord"
  shows "payload (handleDownloadKML fmt ord flt deployment db) =
           Document
             (kml_header @
              concat (map (\<lambda>p.
                track_open @ p @ track_middle @
                concat (map (\<lambda>r. fmt (Longitude r) @ '','' @ fmt (Latitude r) @ '',0 '')
                         (filter (\<lambda>r. Platform r = p) rows)) @
                track_close @
                concat (map (\<lambda>r. waypoint_open @ Timestamp r @ waypoint_when @ Timestamp r @
                                 waypoint_point @ fmt (Longitude r) @ '','' @
                                 fmt (Latitude r) @ waypoint_close)
                         (filter (\<lambda>r. Platform r = p) rows))) ord) @
              kml_footer) \<and>
         sorted (map Timestamp rows) \<and>
         (\<forall>p. sorted (map Timestamp (filter (\<lambda>r. Platform r = p) rows)))"
proof -
  have "payload (handleDownloadKML fmt ord flt deployment db) =
      Document (kml_document fmt (kml_placemarks ord rows))"
    by (simp add: handleDownloadKML_ok [OF assms(1,2)])
  also have "kml_document fmt (kml_placemarks ord rows) =
      kml_header @
      concat (map (\<lambda>p. render_placemark fmt (Track p (group_of rows p)) @
                concat (map (\<lambda>pt. render_placemark fmt (Waypoint pt)) (group_of rows p))) ord) @
      kml_footer"
    by (simp only: kml_document_def kml_placemarks_groups [OF assms(3)] concat_render_groups)
  finally have "payload (handleDownloadKML fmt ord flt deployment db) =
      Document (kml_header @
        concat (map (\<lambda>p. render_placemark fmt (Track p (group_of rows p)) @
                concat (map (\<lambda>pt. render_placemark fmt (Waypoint pt)) (group_of rows p))) ord) @
        kml_footer)" .
  moreover have "sorted (map Timestamp rows)"
    using assms(1) by (rule sorted_query)
  moreover from this have "sorted (map Timestamp (filter (\<lambda>r. Platform r = p) rows))" for p
    by (rule sorted_filter)
  ultimately show ?thesis
    by (simp only: group_text simp_thms)
qed

theorem kml_groups_keep_query_order_witness:
  "db_Query no_faults (\<lambda>r. Deployment r = ''D1'') True db_example = Inr rows_example \<and>
   scan_err no_faults = None \<and>
   is_iteration_order (platformData rows_example) [''P2'', ''P1''] \<and>
   map Timestamp rows_example =
     [''2024-01-01T00:00:00Z'', ''2024-01-01T12:00:00Z'', ''2024-01-02T00:00:00Z''] \<and>
   map Platform rows_example = [''P2'', ''P1'', ''P1''] \<and>
   payload (handleDownloadKML fmt_example [''P2'', ''P1''] no_faults ''D1'' db_example) =
     Document
       (kml_header @
        ''\<newline>'' @
        ''    <Placemark>\<newline>'' @
        ''      <name>P2 Track</name>\<newline>'' @
        ''      <styleUrl>#yellowLineGreenPoly</styleUrl>\<newline>'' @
        ''      <LineString>\<newline>'' @
        ''        <extrude>1</extrude>\<newline>'' @
        ''        <tessellate>1</tessellate>\<newline>'' @
        ''        <altitudeMode>relativeToGround</altitudeMode>\<newline>'' @
        ''        <coordinates>4.000000,3.000000,0 </coordinates>\<newline>'' @
        ''      </LineString>\<newline>'' @
        ''    </Placemark>\<newline>'' @
        ''    <Placemark>\<newline>'' @
        ''      <name>2024-01-01T00:00:00Z</name>\<newline>'' @
        ''      <TimeStamp>\<newline>'' @
        ''        <when>2024-01-01T00:00:00Z</when>\<newline>'' @
        ''      </TimeStamp>\<newline>'' @
        ''      <Point>\<newline>'' @
        ''        <coordinates>4.000000,3.000000,0</coordinates>\<newline>'' @
        ''      </Point>\<newline>'' @
        ''    </Placemark>\<newline>'' @
        ''    <Placemark>\<newline>'' @
        ''      <name>P1 Track</name>\<newline>'' @
        ''      <styleUrl>#yellowLineGreenPoly</styleUrl>\<newline>'' @
        ''      <LineString>\<newline>'' @
        ''        <extrude>1</extrude>\<newline>'' @
        ''        <tessellate>1</tessellate>\<newline>'' @
        ''        <altitudeMode>relativeToGround</altitudeMode>\<newline>'' @
        ''        <coordinates>6.000000,5.000000,0 2.000000,1.000000,0 </coordinates>\<newline>'' @
        ''      </LineString>\<newline>'' @
        ''    </Placemark>\<newline>'' @
        ''    <Placemark>\<newline>'' @
        ''      <name>2024-01-01T12:00:00Z</name>\<newline>'' @
        ''      <TimeStamp>\<newline>'' @
        ''        <when>2024-01-01T12:00:00Z</when>\<newline>'' @
        ''      </TimeStamp>\<newline>'' @
        ''      <Point>\<newline>'' @
        ''        <coordinates>6.000000,5.000000,0</coordinates>\<newline>'' @
        ''      </Point>\<newline>'' @
        ''    </Placemark>\<newline>'' @
        ''    <Placemark>\<newline>'' @
        ''      <name>2024-01-02T00:00:00Z</name>\<newline>'' @
        ''      <TimeStamp>\<newline>'' @
        ''        <when>2024-01-02T00:00:00Z</when>\<newline>'' @
        ''      </TimeStamp>\<newline>'' @
        ''      <Point>\<newline>'' @
        ''        <coordinates>2.000000,1.000000,0</coordinates>\<newline>'' @
        ''      </Point>\<newline>'' @
        ''    </Placemark>'' @
        kml_footer)"
proof -
  have s: "scan_err no_faults = None" by (simp add: no_faults_def)
  have f: "filter (\<lambda>r. Platform r = ''P2'') rows_example = [rec_b]"
    "filter (\<lambda>r. Platform r = ''P1'') rows_example = [rec_c, rec_a]"
    by (simp_all add: rows_example_def rec_defs)
  have t: "map Timestamp rows_example =
     [''2024-01-01T00:00:00Z'', ''2024-01-01T12:00:00Z'', ''2024-01-02T00:00:00Z'']"
    "map Platform rows_example = [''P2'', ''P1'', ''P1'']"
    by (simp_all add: rows_example_def rec_defs)
  from kml_groups_keep_query_order [OF query_example s order_example(1), of fmt_example]
  have "payload (handleDownloadKML fmt_example [''P2'', ''P1''] no_faults ''D1'' db_example) =
      Document
        (kml_header @
         concat (map (\<lambda>p.
           track_open @ p @ track_middle @
           concat (map (\<lambda>r. fmt_example (Longitude r) @ '','' @ fmt_example (Latitude r) @ '',0 '')
                    (filter (\<lambda>r. Platform r = p) rows_example)) @
           track_close @
           concat (map (\<lambda>r. waypoint_open @ Timestamp r @ waypoint_when @ Timestamp r @
                            waypoint_point @ fmt_example (Longitude r) @ '','' @
                            fmt_example (Latitude r) @ waypoint_close)
                    (filter (\<lambda>r. Platform r = p) rows_example))) [''P2'', ''P1'']) @
         kml_footer)"
    by blast
  then show ?thesis
    by (simp add: query_example s order_example(1) t f rec_defs fmt_example_def
        track_open_def track_middle_def track_close_def waypoint_open_def waypoint_when_def
        waypoint_point_def waypoint_close_def)
qed

section \<open>Append-only store and pure reads\<close>

text \<open>
  C9. Over any run of requests, in either variant, the store before the run is a prefix
  of the store after it: a record once written keeps its place and its content. A read
  request (list locations, list deployments, list platforms, track export) leaves the
  store as it was, so the same request served again gives the same response. The track
  export depends on the order in which the runtime iterates the map; two iteration
  orders give the same placemarks, as a multiset.
\<close>

theorem store_append_only_reads_pure:
  "prefix db (run_sqlite reqs db) \<and> prefix coll (run_mongo mreqs coll) \<and>
   (is_read req \<longrightarrow>
      snd (serve_sqlite env req db) = db \<and>
      fst (serve_sqlite env req (snd (serve_sqlite env req db))) = fst (serve_sqlite env req db) \<and>
      snd (serve_mongo menv req coll) = coll \<and>
      fst (serve_mongo menv req (snd (serve_mongo menv req coll))) =
        fst (serve_mongo menv req coll)) \<and>
   (is_iteration_order (platformData rows) ord \<and> is_iteration_order (platformData rows) ord' \<longrightarrow>
      mset (kml_placemarks ord rows) = mset (kml_placemarks ord' rows))"
  using run_sqlite_prefix [of db reqs] run_mongo_prefix [of coll mreqs]
    read_keeps_store [of req env db menv coll] mset_kml_placemarks [of rows ord ord']
  by simp

lemma Rep_seg_D1 [simp]: "Rep_segment seg_D1 = ''D1''"
  by (simp add: seg_D1_def Abs_segment_inverse)

theorem store_append_only_reads_pure_witness:
  "prefix [rec_a] (run_sqlite [(env_example, PostLocation body_example),
                                (env_example, DownloadKML seg_D1)] [rec_a]) \<and>
   is_read (DownloadKML seg_D1) \<and>
   snd (serve_sqlite env_example (DownloadKML seg_D1) db_example) = db_example \<and>
   snd (serve_mongo menv_example GetDeployments [doc_a, doc_b]) = [doc_a, doc_b] \<and>
   is_iteration_order (platformData rows_example) [''P2'', ''P1''] \<and>
   is_iteration_order (platformData rows_example) [''P1'', ''P2''] \<and>
   mset (kml_placemarks [''P2'', ''P1''] rows_example) =
     mset (kml_placemarks [''P1'', ''P2''] rows_example)"
proof -
  have r: "is_read (DownloadKML seg_D1)" "is_read GetDeployments"
    by (simp_all add: is_read_def)
  from store_append_only_reads_pure
    [of "[rec_a]" "[(env_example, PostLocation body_example), (env_example, DownloadKML seg_D1)]"
      "[]" "[]" "DownloadKML seg_D1" env_example menv_example rows_example "[''P2'', ''P1'']"
      "[''P1'', ''P2'']"]
    store_append_only_reads_pure
    [of db_example "[]" "[doc_a, doc_b]" "[]" GetDeployments env_example menv_example "[]" "[]" "[]"]
  show ?thesis using r order_example by simp
qed

section \<open>No escaping in the export\<close>

text \<open>
  C10 is right that the export escapes nothing, and says that the deployment identifier
  is put into the document name. The code attempts that and misses: the document head
  carries \<^verbatim>\<open><name>%s Track</name>\<close>, but the head is never formatted, and the finished
  string goes to \<^verbatim>\<open>c.String\<close> without format arguments. For the deployment \<^verbatim>\<open>D1\<close> the
  document name is the text \<^verbatim>\<open>%s Track\<close> and \<^verbatim>\<open>D1\<close> occurs nowhere in the document, with
  or without records, while the platform name of the same export, whose template is
  formatted, stands in its placemark's name. The deployment does reach the
  \<^verbatim>\<open>Content-Disposition\<close> header.
\<close>

theorem kml_document_name_is_literal:
  "handleDownloadKML fmt_fixed [] no_faults ''D1'' [] =
     \<lparr>status = StatusOK,
      headers = [(''Content-Type'', ''application/vnd.google-earth.kml+xml''),
                 (''Content-Disposition'', ''attachment; filename=D1_track.kml'')],
      payload = Document (kml_header @ kml_footer)\<rparr> \<and>
   occ ''<name>%s Track</name>'' (kml_header @ kml_footer) = 1 \<and>
   occ ''<name>'' (kml_header @ kml_footer) = 1 \<and>
   occ ''D1'' (kml_header @ kml_footer) = 0 \<and>
   handleDownloadKML fmt_fixed [''P1''] no_faults ''D1'' [rec_example] =
     \<lparr>status = StatusOK,
      headers = [(''Content-Type'', ''application/vnd.google-earth.kml+xml''),
                 (''Content-Disposition'', ''attachment; filename=D1_track.kml'')],
      payload = Document (kml_document fmt_fixed (kml_placemarks [''P1''] [rec_example]))\<rparr> \<and>
   occ ''<name>%s Track</name>''
     (kml_document fmt_fixed (kml_placemarks [''P1''] [rec_example])) = 1 \<and>
   occ ''<name>P1 Track</name>''
     (kml_document fmt_fixed (kml_placemarks [''P1''] [rec_example])) = 1 \<and>
   occ ''D1'' (kml_document fmt_fixed (kml_placemarks [''P1''] [rec_example])) = 0"
proof -
  have "handleDownloadKML fmt_fixed [] no_faults ''D1'' [] =
     \<lparr>status = StatusOK,
      headers = [(''Content-Type'', ''application/vnd.google-earth.kml+xml''),
                 (''Content-Disposition'', ''attachment; filename=D1_track.kml'')],
      payload = Document (kml_header @ kml_footer)\<rparr>"
    by (simp add: handleDownloadKML_def db_Query_def scan_rows_def no_faults_def kml_headers_def
        kml_document_def kml_placemarks_def platformData_def range_map_def
        List.map_filter_simps)
  moreover have "handleDownloadKML fmt_fixed [''P1''] no_faults ''D1'' [rec_example] =
     \<lparr>status = StatusOK,
      headers = [(''Content-Type'', ''application/vnd.google-earth.kml+xml''),
                 (''Content-Disposition'', ''attachment; filename=D1_track.kml'')],
      payload = Document (kml_document fmt_fixed (kml_placemarks [''P1''] [rec_example]))\<rparr>"
    by (simp add: handleDownloadKML_def db_Query_def scan_rows_def no_faults_def kml_headers_def
        rec_example_def)
  moreover have "occ ''<name>%s Track</name>'' (kml_header @ kml_footer) = 1"
    "occ ''<name>'' (kml_header @ kml_footer) = 1"
    "occ ''D1'' (kml_header @ kml_footer) = 0"
    by code_simp+
  moreover have
    "occ ''<name>%s Track</name>''
       (kml_document fmt_fixed (kml_placemarks [''P1''] [rec_example])) = 1"
    "occ ''<name>P1 Track</name>''
       (kml_document fmt_fixed (kml_placemarks [''P1''] [rec_example])) = 1"
    "occ ''D1'' (kml_document fmt_fixed (kml_placemarks [''P1''] [rec_example])) = 0"
    by code_simp+
  ultimately show ?thesis
    by (simp only: simp_thms)
qed

lemma sublist_render:
  assumes "pm \<in> set pms"
  shows "sublist (render_placemark fmt pm) (kml_document fmt pms)"
proof -
  from assms obtain as bs where "pms = as @ pm # bs"
    by (auto simp: in_set_conv_decomp)
  then have "kml_document fmt pms =
      (kml_header @ concat (map (render_placemark fmt) as)) @ render_placemark fmt pm @
      (concat (map (render_placemark fmt) bs) @ kml_footer)"
    by (simp add: kml_document_def)
  then show ?thesis
    unfolding sublist_def by blast
qed

lemma sublist_track:
  "sublist (track_open @ platform @ track_middle) (render_placemark fmt (Track platform pts))"
proof -
  have "render_placemark fmt (Track platform pts) =
      [] @ (track_open @ platform @ track_middle) @
      (concat (map (coordinate fmt) pts) @ track_close)"
    by simp
  then show ?thesis unfolding sublist_def by blast
qed

lemma sublist_waypoint:
  "sublist (waypoint_open @ point_Timestamp pt @ waypoint_when @ point_Timestamp pt @ waypoint_point)
     (render_placemark fmt (Waypoint pt))"
proof -
  have "render_placemark fmt (Waypoint pt) =
      [] @ (waypoint_open @ point_Timestamp pt @ waypoint_when @ point_Timestamp pt @ waypoint_point) @
      (fmt (point_Longitude pt) @ '','' @ fmt (point_Latitude pt) @ waypoint_close)"
    by simp
  then show ?thesis unfolding sublist_def by blast
qed

lemma placemarks_of_row:
  assumes "is_iteration_order (platformData rows) ord" and "r \<in> set rows"
  shows "Track (Platform r) (group_of rows (Platform r)) \<in> set (kml_placemarks ord rows)"
    and "Waypoint (point_of r) \<in> set (kml_placemarks ord rows)"
proof -
  from assms have "Platform r \<in> set ord"
    by (simp add: is_iteration_order_def dom_platformData)
  moreover from assms(2) have "point_of r \<in> set (group_of rows (Platform r))"
    by (simp add: group_of_def)
  ultimately show "Track (Platform r) (group_of rows (Platform r)) \<in> set (kml_placemarks ord rows)"
    and "Waypoint (point_of r) \<in> set (kml_placemarks ord rows)"
    unfolding kml_placemarks_groups [OF assms(1)] by auto
qed

lemma not_well_formed_lt:
  "\<not> well_formed (kml_document fmt_fixed (kml_placemarks [''A<B''] [rec_lt]))"
  by (simp add: well_formed_def kml_document_def kml_placemarks_def platformData_def
      add_point_def range_map_def List.map_filter_simps platform_placemarks_def point_of_def
      coordinate_def fmt_fixed_def rec_lt_def
      kml_header_def kml_footer_def track_open_def track_middle_def track_close_def
      waypoint_open_def waypoint_when_def waypoint_point_def waypoint_close_def
      xstep_def end_markup_def is_space_def is_name_start_def is_name_char_def)

lemma not_well_formed_amp:
  "\<not> well_formed (kml_document fmt_fixed (kml_placemarks [''P1''] [rec_amp]))"
  by (simp add: well_formed_def kml_document_def kml_placemarks_def platformData_def
      add_point_def range_map_def List.map_filter_simps platform_placemarks_def point_of_def
      coordinate_def fmt_fixed_def rec_amp_def
      kml_header_def kml_footer_def track_open_def track_middle_def track_close_def
      waypoint_open_def waypoint_when_def waypoint_point_def waypoint_close_def
      xstep_def end_markup_def is_space_def is_name_start_def is_name_char_def)

text \<open>
  What the export does interpolate, it interpolates as it is: the deployment identifier
  in the \<^verbatim>\<open>Content-Disposition\<close> file name, and for every row of the deployment the
  platform name between the fixed texts of the \<^verbatim>\<open>LineString\<close> placemark's name, and the
  timestamp in the waypoint's name and \<^verbatim>\<open>when\<close> elements. So a stored platform \<^verbatim>\<open>A<B\<close>, or
  a stored timestamp \<^verbatim>\<open>noon & after\<close>, gives a document that is not well formed.
\<close>

lemma kml_interpolates_verbatim:
  assumes "db_Query flt (\<lambda>r. Deployment r = deployment) True db = Inr rows"
    and "scan_err flt = None"
    and "is_iteration_order (platformData rows) ord"
  shows "(\<exists>doc. handleDownloadKML fmt ord flt deployment db =
            \<lparr>status = StatusOK,
             headers = [(''Content-Type'', ''application/vnd.google-earth.kml+xml''),
                        (''Content-Disposition'',
                         ''attachment; filename='' @ deployment @ ''_track.kml'')],
             payload = Document doc\<rparr> \<and>
            (\<forall>r \<in> set rows.
               sublist (track_open @ Platform r @ track_middle) doc \<and>
               sublist (waypoint_open @ Timestamp r @ waypoint_when @ Timestamp r @ waypoint_point)
                 doc)) \<and>
         \<not> well_formed (kml_document fmt_fixed (kml_placemarks [''A<B''] [rec_lt])) \<and>
         \<not> well_formed (kml_document fmt_fixed (kml_placemarks [''P1''] [rec_amp]))"
proof -
  let ?doc = "kml_document fmt (kml_placemarks ord rows)"
  have "sublist (track_open @ Platform r @ track_middle) ?doc \<and>
        sublist (waypoint_open @ Timestamp r @ waypoint_when @ Timestamp r @ waypoint_point) ?doc"
    if "r \<in> set rows" for r
  proof -
    have "sublist (render_placemark fmt (Track (Platform r) (group_of rows (Platform r)))) ?doc"
      by (rule sublist_render) (rule placemarks_of_row(1) [OF assms(3) that])
    with sublist_track [of "Platform r" fmt "group_of rows (Platform r)"]
    have t: "sublist (track_open @ Platform r @ track_middle) ?doc"
      by (rule sublist_order.order.trans)
    have "sublist (render_placemark fmt (Waypoint (point_of r))) ?doc"
      by (rule sublist_render) (rule placemarks_of_row(2) [OF assms(3) that])
    with sublist_waypoint [of "point_of r" fmt]
    have "sublist (waypoint_open @ point_Timestamp (point_of r) @ waypoint_when @
                   point_Timestamp (point_of r) @ waypoint_point) ?doc"
      by (rule sublist_order.order.trans)
    with t show ?thesis by (simp add: point_of_def)
  qed
  with handleDownloadKML_ok [OF assms(1,2), of fmt ord] not_well_formed_lt not_well_formed_amp
  show ?thesis by (simp add: kml_headers_def)
qed

lemma kml_interpolates_verbatim_example:
  "db_Query no_faults (\<lambda>r. Deployment r = ''D1'') True [rec_lt] = Inr [rec_lt] \<and>
   scan_err no_faults = None \<and>
   is_iteration_order (platformData [rec_lt]) [''A<B''] \<and>
   (\<exists>doc. handleDownloadKML fmt_fixed [''A<B''] no_faults ''D1'' [rec_lt] =
      \<lparr>status = StatusOK,
       headers = [(''Content-Type'', ''application/vnd.google-earth.kml+xml''),
                  (''Content-Disposition'', ''attachment; filename=D1_track.kml'')],
       payload = Document doc\<rparr> \<and>
      sublist (track_open @ ''A<B'' @ track_middle) doc \<and>
      \<not> well_formed doc)"
proof -
  have q: "db_Query no_faults (\<lambda>r. Deployment r = ''D1'') True [rec_lt] = Inr [rec_lt]"
    by (simp add: db_Query_def no_faults_def rec_lt_def)
  have s: "scan_err no_faults = None" by (simp add: no_faults_def)
  have i: "is_iteration_order (platformData [rec_lt]) [''A<B'']"
    by (simp add: is_iteration_order_def dom_platformData rec_lt_def)
  from kml_interpolates_verbatim [OF q s i, of fmt_fixed]
  obtain doc where doc: "handleDownloadKML fmt_fixed [''A<B''] no_faults ''D1'' [rec_lt] =
      \<lparr>status = StatusOK,
       headers = [(''Content-Type'', ''application/vnd.google-earth.kml+xml''),
                  (''Content-Disposition'', ''attachment; filename='' @ ''D1'' @ ''_track.kml'')],
       payload = Document doc\<rparr>"
    and sub: "sublist (track_open @ Platform rec_lt @ track_middle) doc"
    and bad: "\<not> well_formed (kml_document fmt_fixed (kml_placemarks [''A<B''] [rec_lt]))"
    by auto
  from doc handleDownloadKML_ok [OF q s, of fmt_fixed "[''A<B'']"]
  have "doc = kml_document fmt_fixed (kml_placemarks [''A<B''] [rec_lt])" by simp
  with doc sub bad q s i show ?thesis by (simp add: rec_lt_def)
qed

section \<open>Round trip of ingestion and query\<close>

lemma bind_body_example:
  "ShouldBindJSON_mongo parse_fixed body_example = Inr (doc_example zero_time)"
  "ShouldBindJSON_sqlite body_example = Inr rec_example"
  by (simp_all add: body_example_def ShouldBindJSON_mongo_def ShouldBindJSON_sqlite_def
      set_field_doc_def set_field_def key_is_tags zero_LocationDoc_def zero_Location_def
      doc_example_def rec_example_def Location.extend_def LocationDoc.fields_def)

lemma post_body_example:
  "handlePostLocation_mongo parse_fixed 1700000000123456789 no_mfaults body_example coll =
     (JSON StatusOK StatusSuccess, coll @ [doc_example 1700000000123000000])"
  "handlePostLocation_mongo parse_fixed 1700000001000000000 no_mfaults body_example coll =
     (JSON StatusOK StatusSuccess, coll @ [doc_example 1700000001000000000])"
  "handlePostLocation_sqlite no_faults body_example db =
     (JSON StatusOK StatusSuccess, db @ [rec_example])"
  by (simp_all add: handlePostLocation_mongo_def handlePostLocation_sqlite_def bind_body_example
      no_mfaults_def no_faults_def bson_time_def doc_example_def Location.extend_def
      LocationDoc.fields_def stmt_Exec_def stored_row_def rec_example_def not_NaN_examples
      sqlite_real_examples)

text \<open>
  The claim C7 as first stated fails: the store does not deduplicate. The same body
  submitted twice is listed twice, so the unfiltered list holds two records with the
  submitted fields, not exactly one.
\<close>

theorem duplicate_submission_listed_twice:
  "ShouldBindJSON_mongo parse_fixed body_example = Inr (doc_example zero_time) \<and>
   Location.truncate (doc_example zero_time) = rec_example \<and>
   handlePostLocation_mongo parse_fixed 1700000000123456789 no_mfaults body_example [] =
     (JSON StatusOK StatusSuccess, [doc_example 1700000000123000000]) \<and>
   handlePostLocation_mongo parse_fixed 1700000001000000000 no_mfaults body_example
       [doc_example 1700000000123000000] =
     (JSON StatusOK StatusSuccess,
      [doc_example 1700000000123000000, doc_example 1700000001000000000]) \<and>
   handleGetLocations_mongo no_mfaults [] []
       [doc_example 1700000000123000000, doc_example 1700000001000000000] =
     JSON StatusOK
       (LocationDocs (Slice [doc_example 1700000000123000000, doc_example 1700000001000000000])) \<and>
   count_visible rec_example [doc_example 1700000000123000000, doc_example 1700000001000000000] = 2"
proof -
  have "handleGetLocations_mongo no_mfaults [] []
       [doc_example 1700000000123000000, doc_example 1700000001000000000] =
     JSON StatusOK
       (LocationDocs (Slice [doc_example 1700000000123000000, doc_example 1700000001000000000]))"
    by (simp add: handleGetLocations_mongo_filters no_mfaults_def doc_example_def
        Location.extend_def LocationDoc.fields_def rec_example_def appended_def)
  moreover have "count_visible rec_example
      [doc_example 1700000000123000000, doc_example 1700000001000000000] = 2"
    by (simp add: count_visible_def doc_example_def Location.extend_def Location.truncate_def
        LocationDoc.fields_def rec_example_def)
  moreover have "Location.truncate (doc_example zero_time) = rec_example"
    by (simp add: doc_example_def Location.extend_def Location.truncate_def
        LocationDoc.fields_def rec_example_def)
  ultimately show ?thesis
    using post_body_example(1) [of "[]"]
      post_body_example(2) [of "[doc_example 1700000000123000000]"]
    by (simp add: bind_body_example)
qed

lemma post_neg_zero_listed_as_zero:
  "ShouldBindJSON_sqlite body_neg_zero = Inr rec_neg_zero \<and>
   Latitude rec_neg_zero = neg_zero \<and>
   handlePostLocation_sqlite no_faults body_neg_zero [] =
     (JSON StatusOK StatusSuccess, [rec_neg_zero\<lparr>Latitude := 0\<rparr>]) \<and>
   handleGetLocations_sqlite no_faults [] [] [rec_neg_zero\<lparr>Latitude := 0\<rparr>] =
     JSON StatusOK (Locations (Slice [rec_neg_zero\<lparr>Latitude := 0\<rparr>])) \<and>
   count_visible rec_neg_zero [rec_neg_zero\<lparr>Latitude := 0\<rparr>] = 0"
  by (simp add: body_neg_zero_def rec_neg_zero_def ShouldBindJSON_sqlite_def set_field_def
      key_is_tags zero_Location_def handlePostLocation_sqlite_def stmt_Exec_def stored_row_def
      not_NaN_examples sqlite_real_examples no_faults_def neg_zero_def
      handleGetLocations_sqlite_def db_Query_def scan_rows_def where_clause_def appended_def
      count_visible_def)

text \<open>
  C7, as amended. After an accepted submission, the unfiltered list holds exactly one
  more record with the submitted visible fields (the bound struct without its creation
  time) than the unfiltered list before the submission held; so at least one, and
  exactly one when none was stored before. This holds in both variants when the store
  reports no failure. In the relational variant the fields are those of the row as the
  table gives it back: a coordinate submitted as negative zero is listed as positive
  zero (lemma \<open>post_neg_zero_listed_as_zero\<close>), and every other submission is listed
  with the very values submitted.
\<close>

theorem post_then_list:
  "(handlePostLocation_mongo pt now flt body coll = (resp, coll') \<and> status resp = StatusOK \<and>
    find_err flt = None \<and> cursor_err flt = None \<longrightarrow>
      (\<exists>loc before after.
         ShouldBindJSON_mongo pt body = Inr loc \<and>
         handleGetLocations_mongo flt [] [] coll = JSON StatusOK (LocationDocs before) \<and>
         handleGetLocations_mongo flt [] [] coll' = JSON StatusOK (LocationDocs after) \<and>
         count_visible (Location.truncate loc) (elems after) =
           Suc (count_visible (Location.truncate loc) (elems before)))) \<and>
   (handlePostLocation_sqlite sflt body db = (sresp, db') \<and> status sresp = StatusOK \<and>
    query_err sflt = None \<and> scan_err sflt = None \<longrightarrow>
      (\<exists>loc before after.
         ShouldBindJSON_sqlite body = Inr loc \<and>
         handleGetLocations_sqlite sflt [] [] db = JSON StatusOK (Locations before) \<and>
         handleGetLocations_sqlite sflt [] [] db' = JSON StatusOK (Locations after) \<and>
         count_visible (stored_row loc) (elems after) =
           Suc (count_visible (stored_row loc) (elems before)) \<and>
         (Latitude loc \<noteq> neg_zero \<and> Longitude loc \<noteq> neg_zero \<longrightarrow> stored_row loc = loc)))"
proof (intro conjI impI)
  assume a: "handlePostLocation_mongo pt now flt body coll = (resp, coll') \<and>
    status resp = StatusOK \<and> find_err flt = None \<and> cursor_err flt = None"
  then obtain loc where loc: "ShouldBindJSON_mongo pt body = Inr loc"
    and coll': "coll' = coll @ [loc\<lparr>CreatedAt := bson_time now\<rparr>]"
    by (auto simp: handlePostLocation_mongo_def JSON_def status_defs Let_def
        split: sum.splits option.splits)
  from a have "handleGetLocations_mongo flt [] [] coll =
          JSON StatusOK (LocationDocs (appended (sort_key Timestamp coll)))"
    and "handleGetLocations_mongo flt [] [] coll' =
          JSON StatusOK (LocationDocs (appended (sort_key Timestamp coll')))"
    by (simp_all add: handleGetLocations_mongo_filters)
  moreover have "count_visible (Location.truncate loc) (elems (appended (sort_key Timestamp coll'))) =
      Suc (count_visible (Location.truncate loc) (elems (appended (sort_key Timestamp coll))))"
    by (simp add: coll')
  ultimately show "\<exists>loc before after.
         ShouldBindJSON_mongo pt body = Inr loc \<and>
         handleGetLocations_mongo flt [] [] coll = JSON StatusOK (LocationDocs before) \<and>
         handleGetLocations_mongo flt [] [] coll' = JSON StatusOK (LocationDocs after) \<and>
         count_visible (Location.truncate loc) (elems after) =
           Suc (count_visible (Location.truncate loc) (elems before))"
    using loc by blast
next
  assume a: "handlePostLocation_sqlite sflt body db = (sresp, db') \<and> status sresp = StatusOK \<and>
    query_err sflt = None \<and> scan_err sflt = None"
  with post_sqlite_accepted [of sflt body db sresp db']
  obtain sloc where sloc: "ShouldBindJSON_sqlite body = Inr sloc"
    and db': "db' = db @ [stored_row sloc]"
    by blast
  from a have "handleGetLocations_sqlite sflt [] [] db = JSON StatusOK (Locations (appended db))"
    and "handleGetLocations_sqlite sflt [] [] db' = JSON StatusOK (Locations (appended db'))"
    by (simp_all add: handleGetLocations_sqlite_def db_Query_def scan_rows_def where_clause_def)
  moreover have "count_visible (stored_row sloc) (elems (appended db')) =
      Suc (count_visible (stored_row sloc) (elems (appended db)))"
    by (simp add: db')
  moreover have "Latitude sloc \<noteq> neg_zero \<and> Longitude sloc \<noteq> neg_zero \<longrightarrow> stored_row sloc = sloc"
    by (simp add: stored_row_same)
  ultimately show "\<exists>loc before after.
         ShouldBindJSON_sqlite body = Inr loc \<and>
         handleGetLocations_sqlite sflt [] [] db = JSON StatusOK (Locations before) \<and>
         handleGetLocations_sqlite sflt [] [] db' = JSON StatusOK (Locations after) \<and>
         count_visible (stored_row loc) (elems after) =
           Suc (count_visible (stored_row loc) (elems before)) \<and>
         (Latitude loc \<noteq> neg_zero \<and> Longitude loc \<noteq> neg_zero \<longrightarrow> stored_row loc = loc)"
    using sloc by blast
qed

theorem post_then_list_witness:
  "handlePostLocation_mongo parse_fixed 1700000000123456789 no_mfaults body_example [doc_a] =
     (JSON StatusOK StatusSuccess, [doc_a, doc_example 1700000000123000000]) \<and>
   status (JSON StatusOK StatusSuccess) = StatusOK \<and>
   find_err no_mfaults = None \<and> cursor_err no_mfaults = None \<and>
   (\<exists>loc before after.
      ShouldBindJSON_mongo parse_fixed body_example = Inr loc \<and>
      handleGetLocations_mongo no_mfaults [] [] [doc_a] = JSON StatusOK (LocationDocs before) \<and>
      handleGetLocations_mongo no_mfaults [] [] [doc_a, doc_example 1700000000123000000] =
        JSON StatusOK (LocationDocs after) \<and>
      count_visible (Location.truncate loc) (elems after) =
        Suc (count_visible (Location.truncate loc) (elems before))) \<and>
   handlePostLocation_sqlite no_faults body_example [rec_a] =
     (JSON StatusOK StatusSuccess, [rec_a, rec_example]) \<and>
   query_err no_faults = None \<and> scan_err no_faults = None \<and>
   (\<exists>loc before after.
      ShouldBindJSON_sqlite body_example = Inr loc \<and>
      handleGetLocations_sqlite no_faults [] [] [rec_a] = JSON StatusOK (Locations before) \<and>
      handleGetLocations_sqlite no_faults [] [] [rec_a, rec_example] =
        JSON StatusOK (Locations after) \<and>
      count_visible (stored_row loc) (elems after) =
        Suc (count_visible (stored_row loc) (elems before)) \<and>
      stored_row loc = loc)"
proof -
  have h: "status (JSON StatusOK StatusSuccess) = StatusOK"
    "find_err no_mfaults = None" "cursor_err no_mfaults = None"
    "query_err no_faults = None" "scan_err no_faults = None"
    by (simp_all add: JSON_def no_mfaults_def no_faults_def)
  have m: "handlePostLocation_mongo parse_fixed 1700000000123456789 no_mfaults body_example [doc_a] =
     (JSON StatusOK StatusSuccess, [doc_a, doc_example 1700000000123000000])"
    and q: "handlePostLocation_sqlite no_faults body_example [rec_a] =
     (JSON StatusOK StatusSuccess, [rec_a, rec_example])"
    by (simp_all add: post_body_example)
  have z: "Latitude rec_example \<noteq> neg_zero" "Longitude rec_example \<noteq> neg_zero"
    by (simp_all add: rec_example_def neg_zero_def)
  from post_then_list [of parse_fixed 1700000000123456789 no_mfaults body_example "[doc_a]"
      "JSON StatusOK StatusSuccess" "[doc_a, doc_example 1700000000123000000]"
      no_faults "[rec_a]" "JSON StatusOK StatusSuccess" "[rec_a, rec_example]"]
  show ?thesis using h m q z by (auto simp: bind_body_example)
qed

end
